theory Spec2Isabelle
  imports Main
begin

section \<open>Tool catalog renderer (scripts/generate-tool-catalog-markdown.py)\<close>

text \<open>
  A shallow embedding of the catalog renderer. The script reads a JSON document with
  \<^verbatim>\<open>json.load\<close> and walks the resulting Python value, appending lines to one list
  \<^verbatim>\<open>markdown\<close> that every helper receives; the document is the list joined by newlines.

  Scope of the embedding:
  \<^item> a Python \<^verbatim>\<open>str\<close> is a \<^typ>\<open>string\<close> whose characters are the code points
    U+0000 to U+00FF (\<open>CHR 0xDF\<close> is the letter sharp s); text with a code point from
    U+0100 on is not part of the value type. \<^verbatim>\<open>lower\<close>, the cased test and \<^verbatim>\<open>repr\<close> are
    those of Python on these code points. So is \<^verbatim>\<open>title\<close>, except at U+00B5 and U+00FF,
    whose title-case (U+039C, U+0178) is no character of the type: \<open>title_in_range\<close>
    holds of the text that has neither, and a statement about the title-cased text of a
    name assumes it;
  \<^item> a JSON number is an integer; floating-point numbers are not part of the value type;
  \<^item> a Python \<^verbatim>\<open>dict\<close> is the list of its items in insertion order (\<^verbatim>\<open>json.load\<close>
    yields distinct keys);
  \<^item> the text of an exception is the one CPython 3.11 to 3.13 prints.
\<close>

subsection \<open>Values and exceptions\<close>

datatype json =
    JNull
  | JBool bool
  | JInt int
  | JStr string
  | JArr "json list"
  | JObj "(string \<times> json) list"

datatype py_error =
    AttributeError string
  | TypeError string
  | KeyError string

text \<open>Sequencing of computations that may raise: the first exception wins.\<close>

definition ebind :: "'e + 'a \<Rightarrow> ('a \<Rightarrow> 'e + 'b) \<Rightarrow> 'e + 'b" where
  "ebind m f = (case m of Inl e \<Rightarrow> Inl e | Inr x \<Rightarrow> f x)"

subsection \<open>Python strings\<close>

text \<open>
  The upper-case letters below U+0100 that have a lower-case partner, and their partners
  in the same order: A to Z, and U+00C0 to U+00DE without the multiplication sign U+00D7;
  a to z, and U+00E0 to U+00FE without the division sign U+00F7.
\<close>

definition upper_letters :: string where
  "upper_letters = ''ABCDEFGHIJKLMNOPQRSTUVWXYZ'' @
     [CHR 0xC0, CHR 0xC1, CHR 0xC2, CHR 0xC3, CHR 0xC4, CHR 0xC5, CHR 0xC6, CHR 0xC7,
      CHR 0xC8, CHR 0xC9, CHR 0xCA, CHR 0xCB, CHR 0xCC, CHR 0xCD, CHR 0xCE, CHR 0xCF,
      CHR 0xD0, CHR 0xD1, CHR 0xD2, CHR 0xD3, CHR 0xD4, CHR 0xD5, CHR 0xD6,
      CHR 0xD8, CHR 0xD9, CHR 0xDA, CHR 0xDB, CHR 0xDC, CHR 0xDD, CHR 0xDE]"

definition lower_letters :: string where
  "lower_letters = ''abcdefghijklmnopqrstuvwxyz'' @
     [CHR 0xE0, CHR 0xE1, CHR 0xE2, CHR 0xE3, CHR 0xE4, CHR 0xE5, CHR 0xE6, CHR 0xE7,
      CHR 0xE8, CHR 0xE9, CHR 0xEA, CHR 0xEB, CHR 0xEC, CHR 0xED, CHR 0xEE, CHR 0xEF,
      CHR 0xF0, CHR 0xF1, CHR 0xF2, CHR 0xF3, CHR 0xF4, CHR 0xF5, CHR 0xF6,
      CHR 0xF8, CHR 0xF9, CHR 0xFA, CHR 0xFB, CHR 0xFC, CHR 0xFD, CHR 0xFE]"

text \<open>Lower-casing of one character: an upper-case letter becomes its partner.\<close>

definition char_lower :: "char \<Rightarrow> char" where
  "char_lower c = (case map_of (zip upper_letters lower_letters) c of None \<Rightarrow> c | Some d \<Rightarrow> d)"

text \<open>
  Title-casing of one character: a lower-case letter becomes its partner, and sharp s
  (U+00DF) becomes the two characters \<^verbatim>\<open>Ss\<close>. (U+00B5 and U+00FF are left as they are
  here; Python gives U+039C and U+0178.)
\<close>

definition char_title :: "char \<Rightarrow> string" where
  "char_title c =
     (if c = CHR 0xDF then ''Ss''
      else case map_of (zip lower_letters upper_letters) c of None \<Rightarrow> [c] | Some d \<Rightarrow> [d])"

definition title_in_range :: "string \<Rightarrow> bool" where
  "title_in_range s = (CHR 0xB5 \<notin> set s \<and> CHR 0xFF \<notin> set s)"

text \<open>
  The cased characters: the letters above, sharp s, and U+00AA, U+00B5, U+00BA, U+00FF.
\<close>

definition is_cased :: "char \<Rightarrow> bool" where
  "is_cased c = (c \<in> set upper_letters \<or> c \<in> set lower_letters
                 \<or> c \<in> set [CHR 0xAA, CHR 0xB5, CHR 0xBA, CHR 0xDF, CHR 0xFF])"

text \<open>\<^verbatim>\<open>str.lower()\<close>.\<close>

definition str_lower :: "string \<Rightarrow> string" where
  "str_lower s = map char_lower s"

text \<open>
  \<^verbatim>\<open>str.title()\<close>: a character that follows a cased character is lower-cased, any other
  is title-cased.
\<close>

fun title_from :: "bool \<Rightarrow> string \<Rightarrow> string" where
  "title_from previous_is_cased [] = []"
| "title_from previous_is_cased (c # cs) =
     (if previous_is_cased then [char_lower c] else char_title c) @ title_from (is_cased c) cs"

definition str_title :: "string \<Rightarrow> string" where
  "str_title s = title_from False s"

text \<open>\<^verbatim>\<open>sep.join(xs)\<close> on a list of strings.\<close>

fun join :: "string \<Rightarrow> string list \<Rightarrow> string" where
  "join sep [] = []"
| "join sep [x] = x"
| "join sep (x # y # ys) = x @ sep @ join sep (y # ys)"

text \<open>\<^verbatim>\<open>sub in s\<close> on two strings: \<^verbatim>\<open>sub\<close> occurs in \<^verbatim>\<open>s\<close> as a contiguous slice.\<close>

fun str_contains :: "string \<Rightarrow> string \<Rightarrow> bool" where
  "str_contains sub [] = (sub = [])"
| "str_contains sub (c # cs) = (take (length sub) (c # cs) = sub \<or> str_contains sub cs)"

text \<open>\<^verbatim>\<open>str(n)\<close> of an integer: decimal digits, with a minus sign when negative.\<close>

fun nat_digits :: "nat \<Rightarrow> string" where
  "nat_digits n =
     (if n < 10 then [''0123456789'' ! n]
      else nat_digits (n div 10) @ [''0123456789'' ! (n mod 10)])"

declare nat_digits.simps [simp del]

definition int_str :: "int \<Rightarrow> string" where
  "int_str i = (if i < 0 then ''-'' @ nat_digits (nat (- i)) else nat_digits (nat i))"

text \<open>
  \<^verbatim>\<open>repr(s)\<close> of a string: single quotes, unless the text has a single quote and no
  double quote; the quote and the backslash are escaped, tab, newline and carriage return
  are written as letters, and the other characters that are not printable (U+0000 to
  U+001F, U+007F to U+00A0, U+00AD) as \<^verbatim>\<open>\xNN\<close>.
\<close>

definition hex2 :: "char \<Rightarrow> string" where
  "hex2 c = [''0123456789abcdef'' ! ((of_char c :: nat) div 16),
             ''0123456789abcdef'' ! ((of_char c :: nat) mod 16)]"

definition is_printable :: "char \<Rightarrow> bool" where
  "is_printable c =
     (32 \<le> (of_char c :: nat) \<and> \<not> (127 \<le> (of_char c :: nat) \<and> (of_char c :: nat) \<le> 160)
      \<and> c \<noteq> CHR 0xAD)"

definition repr_char :: "char \<Rightarrow> char \<Rightarrow> string" where
  "repr_char quote c =
     (if c = quote \<or> c = CHR 0x5C then [CHR 0x5C, c]
      else if c = CHR 0x09 then [CHR 0x5C, CHR ''t'']
      else if c = CHR 0x0A then [CHR 0x5C, CHR ''n'']
      else if c = CHR 0x0D then [CHR 0x5C, CHR ''r'']
      else if \<not> is_printable c then [CHR 0x5C, CHR ''x''] @ hex2 c
      else [c])"

definition str_repr :: "string \<Rightarrow> string" where
  "str_repr s =
     (let quote = (if CHR 0x27 \<in> set s \<and> CHR 0x22 \<notin> set s then CHR 0x22 else CHR 0x27)
      in [quote] @ concat (map (repr_char quote) s) @ [quote])"

subsection \<open>Python operations on loaded values\<close>

definition type_name :: "json \<Rightarrow> string" where
  "type_name v = (case v of
       JNull \<Rightarrow> ''NoneType'' | JBool _ \<Rightarrow> ''bool'' | JInt _ \<Rightarrow> ''int''
     | JStr _ \<Rightarrow> ''str'' | JArr _ \<Rightarrow> ''list'' | JObj _ \<Rightarrow> ''dict'')"

text \<open>\<^verbatim>\<open>repr(v)\<close> and \<^verbatim>\<open>str(v)\<close>; an f-string field \<^verbatim>\<open>{v}\<close> is \<^verbatim>\<open>str(v)\<close>.\<close>

fun py_repr :: "json \<Rightarrow> string" where
  "py_repr JNull = ''None''"
| "py_repr (JBool b) = (if b then ''True'' else ''False'')"
| "py_repr (JInt i) = int_str i"
| "py_repr (JStr s) = str_repr s"
| "py_repr (JArr xs) = ''['' @ join '', '' (map py_repr xs) @ '']''"
| "py_repr (JObj kvs) =
     ''{'' @ join '', '' (map (\<lambda>kv. str_repr (fst kv) @ '': '' @ py_repr (snd kv)) kvs) @ ''}''"

definition py_str :: "json \<Rightarrow> string" where
  "py_str v = (case v of JStr s \<Rightarrow> s | _ \<Rightarrow> py_repr v)"

text \<open>Truth value of a value in a condition.\<close>

definition py_truthy :: "json \<Rightarrow> bool" where
  "py_truthy v = (case v of
       JNull \<Rightarrow> False | JBool b \<Rightarrow> b | JInt i \<Rightarrow> i \<noteq> 0
     | JStr s \<Rightarrow> s \<noteq> [] | JArr xs \<Rightarrow> xs \<noteq> [] | JObj kvs \<Rightarrow> kvs \<noteq> [])"

definition is_dict :: "json \<Rightarrow> bool" where
  "is_dict v = (case v of JObj _ \<Rightarrow> True | _ \<Rightarrow> False)"

definition no_attribute :: "json \<Rightarrow> string \<Rightarrow> py_error" where
  "no_attribute v a =
     AttributeError ([CHR 0x27] @ type_name v @ [CHR 0x27] @ '' object has no attribute ''
                     @ [CHR 0x27] @ a @ [CHR 0x27])"

text \<open>\<^verbatim>\<open>d.get(k, default)\<close>: only a dict has the method.\<close>

definition dict_get :: "(string \<times> json) list \<Rightarrow> string \<Rightarrow> json \<Rightarrow> json" where
  "dict_get kvs k d = (case map_of kvs k of None \<Rightarrow> d | Some v \<Rightarrow> v)"

definition py_get :: "json \<Rightarrow> string \<Rightarrow> json \<Rightarrow> py_error + json" where
  "py_get v k d = (case v of JObj kvs \<Rightarrow> Inr (dict_get kvs k d) | _ \<Rightarrow> Inl (no_attribute v ''get''))"

text \<open>\<^verbatim>\<open>d.keys()\<close> and \<^verbatim>\<open>d.items()\<close>, in insertion order.\<close>

definition py_keys :: "json \<Rightarrow> py_error + string list" where
  "py_keys v = (case v of JObj kvs \<Rightarrow> Inr (map fst kvs) | _ \<Rightarrow> Inl (no_attribute v ''keys''))"

definition py_items :: "json \<Rightarrow> py_error + (string \<times> json) list" where
  "py_items v = (case v of JObj kvs \<Rightarrow> Inr kvs | _ \<Rightarrow> Inl (no_attribute v ''items''))"

text \<open>\<^verbatim>\<open>v[k]\<close> with a string key.\<close>

definition py_getitem :: "json \<Rightarrow> string \<Rightarrow> py_error + json" where
  "py_getitem v k = (case v of
       JObj kvs \<Rightarrow> (case map_of kvs k of None \<Rightarrow> Inl (KeyError k) | Some x \<Rightarrow> Inr x)
     | JArr _ \<Rightarrow> Inl (TypeError ''list indices must be integers or slices, not str'')
     | JStr _ \<Rightarrow> Inl (TypeError (''string indices must be integers, not '' @ [CHR 0x27] @ ''str'' @ [CHR 0x27]))
     | _ \<Rightarrow> Inl (TypeError ([CHR 0x27] @ type_name v @ [CHR 0x27] @ '' object is not subscriptable'')))"

text \<open>
  \<^verbatim>\<open>k in v\<close> with a string \<^verbatim>\<open>k\<close>: key membership in a dict, element equality in a list,
  substring test in a string; the other types are no containers.
\<close>

definition py_in :: "string \<Rightarrow> json \<Rightarrow> py_error + bool" where
  "py_in k v = (case v of
       JObj kvs \<Rightarrow> Inr (k \<in> set (map fst kvs))
     | JArr xs \<Rightarrow> Inr (JStr k \<in> set xs)
     | JStr s \<Rightarrow> Inr (str_contains k s)
     | _ \<Rightarrow> Inl (TypeError (''argument of type '' @ [CHR 0x27] @ type_name v @ [CHR 0x27]
                            @ '' is not iterable'')))"

text \<open>\<^verbatim>\<open>len(v)\<close>.\<close>

definition py_len :: "json \<Rightarrow> py_error + nat" where
  "py_len v = (case v of
       JObj kvs \<Rightarrow> Inr (length kvs)
     | JArr xs \<Rightarrow> Inr (length xs)
     | JStr s \<Rightarrow> Inr (length s)
     | _ \<Rightarrow> Inl (TypeError (''object of type '' @ [CHR 0x27] @ type_name v @ [CHR 0x27]
                            @ '' has no len()'')))"

text \<open>
  The elements a \<^verbatim>\<open>for\<close> loop visits: the items of a list, the one-character strings of a
  string, the keys of a dict.
\<close>

definition py_iter :: "json \<Rightarrow> py_error + json list" where
  "py_iter v = (case v of
       JArr xs \<Rightarrow> Inr xs
     | JStr s \<Rightarrow> Inr (map (\<lambda>c. JStr [c]) s)
     | JObj kvs \<Rightarrow> Inr (map (\<lambda>kv. JStr (fst kv)) kvs)
     | _ \<Rightarrow> Inl (TypeError ([CHR 0x27] @ type_name v @ [CHR 0x27] @ '' object is not iterable'')))"

text \<open>
  \<^verbatim>\<open>sep.join(v)\<close>: the argument must be iterable and every item a string; the first item
  that is not one raises, naming its position and type.
\<close>

fun join_items :: "nat \<Rightarrow> json list \<Rightarrow> py_error + string list" where
  "join_items i [] = Inr []"
| "join_items i (x # xs) =
     (case x of
        JStr s \<Rightarrow> (case join_items (Suc i) xs of Inl e \<Rightarrow> Inl e | Inr ss \<Rightarrow> Inr (s # ss))
      | _ \<Rightarrow> Inl (TypeError (''sequence item '' @ nat_digits i @ '': expected str instance, ''
                             @ type_name x @ '' found'')))"

definition py_join :: "string \<Rightarrow> json \<Rightarrow> py_error + string" where
  "py_join sep v =
     (case py_iter v of
        Inl e \<Rightarrow> Inl (TypeError ''can only join an iterable'')
      | Inr xs \<Rightarrow> (case join_items 0 xs of Inl e \<Rightarrow> Inl e | Inr ss \<Rightarrow> Inr (join sep ss)))"

subsection \<open>The renderer\<close>

text \<open>
  Every helper takes the list \<^verbatim>\<open>markdown\<close> built so far and returns it extended; an
  exception leaves the helper at once and the list is dropped with it.
\<close>

text \<open>The loop over \<^verbatim>\<open>properties.items()\<close> (lines 171 to 175).\<close>

fun parameters_loop ::
  "string list \<Rightarrow> string \<Rightarrow> json \<Rightarrow> (string \<times> json) list \<Rightarrow> py_error + string list" where
  "parameters_loop markdown indent required [] = Inr markdown"
| "parameters_loop markdown indent required (item # rest) =
     (case py_get (snd item) ''type'' (JStr ''unknown'') of Inl e \<Rightarrow> Inl e | Inr param_type \<Rightarrow>
      case py_get (snd item) ''description'' (JStr ''No description'') of Inl e \<Rightarrow> Inl e | Inr param_desc \<Rightarrow>
      case py_in (fst item) required of Inl e \<Rightarrow> Inl e | Inr is_required \<Rightarrow>
        parameters_loop
          (markdown @ [indent @ ''- `'' @ fst item @ ''` ('' @ py_str param_type @ '')''
                       @ (if is_required then '' *(required)*'' else '''')
                       @ '': '' @ py_str param_desc])
          indent required rest)"

text \<open>The use-cases line (lines 158 to 160).\<close>

definition use_cases_part :: "string list \<Rightarrow> string \<Rightarrow> json \<Rightarrow> py_error + string list" where
  "use_cases_part markdown indent use_cases =
     (if py_truthy use_cases
      then ebind (py_join '', '' use_cases) (\<lambda>use_cases_str.
             Inr (markdown @ [indent @ ''**Use Cases**: '' @ use_cases_str]))
      else Inr markdown)"

text \<open>The part \<^verbatim>\<open># Input Schema (simplified)\<close> (lines 163 to 175).\<close>

definition input_schema_part :: "string list \<Rightarrow> string \<Rightarrow> json \<Rightarrow> py_error + string list" where
  "input_schema_part markdown indent input_schema =
     (if py_truthy input_schema \<and> is_dict input_schema
      then ebind (py_get input_schema ''properties'' (JObj [])) (\<lambda>properties.
           ebind (py_get input_schema ''required'' (JArr [])) (\<lambda>required.
             if py_truthy properties
             then ebind (py_items properties) (\<lambda>items.
                    parameters_loop (markdown @ [indent, indent @ ''**Parameters**:''])
                      indent required items)
             else Inr markdown))
      else Inr markdown)"

definition generate_tool_documentation ::
  "string list \<Rightarrow> json \<Rightarrow> string \<Rightarrow> py_error + string list" where
  "generate_tool_documentation markdown tool indent =
     ebind (py_get tool ''name'' (JStr ''unknown'')) (\<lambda>tool_name.
     ebind (py_get tool ''description'' (JStr ''No description available'')) (\<lambda>description.
     ebind (py_get tool ''category'' (JStr ''general'')) (\<lambda>category.
     ebind (py_get tool ''use_cases'' (JArr [])) (\<lambda>use_cases.
     ebind (use_cases_part
              (markdown @
                 [indent @ ''#### `'' @ py_str tool_name @ ''`'',
                  indent,
                  indent @ ''**Description**: '' @ py_str description,
                  indent,
                  indent @ ''**Category**: '' @ py_str category])
              indent use_cases) (\<lambda>markdown.
     ebind (py_get tool ''input_schema'' JNull) (\<lambda>input_schema.
     ebind (input_schema_part markdown indent input_schema) (\<lambda>markdown.
     Inr (markdown @ [indent]))))))))"

text \<open>The loop \<^verbatim>\<open>for tool in tools\<close> of both server sections.\<close>

fun tools_loop :: "string list \<Rightarrow> json list \<Rightarrow> py_error + string list" where
  "tools_loop markdown [] = Inr markdown"
| "tools_loop markdown (tool # rest) =
     (case generate_tool_documentation markdown tool '''' of
        Inl e \<Rightarrow> Inl e
      | Inr markdown' \<Rightarrow> tools_loop markdown' rest)"

text \<open>The part \<^verbatim>\<open># Tools\<close> that ends both server sections (lines 109 to 115, 135 to 141).\<close>

definition tools_part :: "string list \<Rightarrow> json \<Rightarrow> py_error + string list" where
  "tools_part markdown server_info =
     ebind (py_get server_info ''tools'' (JArr [])) (\<lambda>tools.
       if py_truthy tools
       then ebind (py_len tools) (\<lambda>n.
            ebind (py_iter tools) (\<lambda>items.
              tools_loop
                (markdown @ [''**Available Tools** ('' @ nat_digits n @ '' tools):'', ''''])
                items))
       else Inr markdown)"

text \<open>The \<^verbatim>\<open>args\<close> line of the server configuration (lines 97 to 100).\<close>

definition args_part :: "string list \<Rightarrow> json \<Rightarrow> py_error + string list" where
  "args_part markdown args =
     (if py_truthy args
      then ebind (py_iter args) (\<lambda>items.
             Inr (markdown @
               [''  \"args\": [''
                @ join '', '' (map (\<lambda>arg. ''\"'' @ py_str arg @ ''\"'') items)
                @ '']'']))
      else Inr markdown)"

text \<open>The part \<^verbatim>\<open># Server Configuration (if available)\<close> (lines 91 to 106).\<close>

definition server_configuration_part :: "string list \<Rightarrow> json \<Rightarrow> py_error + string list" where
  "server_configuration_part markdown server_info =
     ebind (py_in ''command'' server_info) (\<lambda>has_command.
       if has_command
       then ebind (py_get server_info ''command'' (JStr '''')) (\<lambda>command.
            ebind (py_get server_info ''args'' (JArr [])) (\<lambda>args.
            ebind (args_part
                     (markdown @
                        [''**Server Configuration**:'',
                         ''```json'',
                         ''{'',
                         ''  \"command\": \"'' @ py_str command @ ''\"''])
                     args) (\<lambda>markdown.
            ebind (py_get server_info ''working_directory'' (JStr ''project_root'')) (\<lambda>working_dir.
              Inr (markdown @
                [''  \"workingDirectory\": \"'' @ py_str working_dir @ ''\"'',
                 ''}'',
                 ''```'',
                 ''''])))))
       else Inr markdown)"

definition generate_local_server_section ::
  "string list \<Rightarrow> string \<Rightarrow> json \<Rightarrow> py_error + string list" where
  "generate_local_server_section markdown server_name server_info =
     ebind (py_get server_info ''description'' (JStr ''No description available'')) (\<lambda>description.
     ebind (server_configuration_part
              (markdown @
                 [''### '' @ str_title server_name,
                  '''',
                  ''**Description**: '' @ py_str description,
                  ''''])
              server_info) (\<lambda>markdown.
     tools_part markdown server_info))"

text \<open>The part \<^verbatim>\<open># Endpoint info (if available)\<close> (lines 130 to 132).\<close>

definition endpoint_part :: "string list \<Rightarrow> json \<Rightarrow> py_error + string list" where
  "endpoint_part markdown server_info =
     ebind (py_in ''endpoint'' server_info) (\<lambda>has_endpoint.
       if has_endpoint
       then ebind (py_getitem server_info ''endpoint'') (\<lambda>endpoint.
              Inr (markdown @ [''**Endpoint**: `'' @ py_str endpoint @ ''`'', '''']))
       else Inr markdown)"

definition generate_remote_server_section ::
  "string list \<Rightarrow> string \<Rightarrow> json \<Rightarrow> py_error + string list" where
  "generate_remote_server_section markdown server_name server_info =
     ebind (py_get server_info ''description'' (JStr ''No description available'')) (\<lambda>description.
     ebind (endpoint_part
              (markdown @
                 [''### '' @ str_title server_name,
                  '''',
                  ''**Description**: '' @ py_str description,
                  ''''])
              server_info) (\<lambda>markdown.
     tools_part markdown server_info))"

definition generate_configuration_guide :: "string list \<Rightarrow> string list" where
  "generate_configuration_guide markdown = markdown @
     [''## Client Configuration Guide'',
      '''',
      ''When generating task-specific client configurations, use this structure:'',
      '''',
      ''### Expected client-config.json Structure'',
      '''',
      ''```json'',
      ''{'',
      ''  \"remoteTools\": ['',
      ''    \"kubernetes_listResources\",'',
      ''    \"memory_create_entities\"'',
      ''  ],'',
      ''  \"localServers\": {'',
      ''    \"filesystem\": {'',
      ''      \"command\": \"npx\",'',
      ''      \"args\": [\"-y\", \"@modelcontextprotocol/server-filesystem\", \"/workspace\"],'',
      ''      \"tools\": [\"read_file\", \"write_file\", \"list_directory\"],'',
      ''      \"workingDirectory\": \"project_root\"'',
      ''    }'',
      ''  }'',
      ''}'',
      ''```'',
      '''',
      ''### Key Points'',
      '''',
      ''- **Remote Tools**: Array of specific tool names (not server names)'',
      ''- **Local Servers**: Object with complete server configurations'',
      ''- **Tools Selection**: Only include tools actually needed for the specific task'',
      ''- **Working Directory**: Use `project_root` as the standard working directory'',
      '''',
      ''### Tool Selection Guidelines'',
      '''',
      ''1. **Read Task Requirements**: Understand what the task needs to accomplish'',
      ''2. **Match Tools to Actions**: Select tools that directly support the required actions'',
      ''3. **Minimize Tool Set**: Only include tools that are actually needed'',
      ''4. **Consider Dependencies**: Include tools needed for prerequisite actions'',
      '''']"

text \<open>The table-of-contents line of one server (lines 39 and 46).\<close>

definition toc_entry :: "string \<Rightarrow> string" where
  "toc_entry server_name =
     ''  - ['' @ str_title server_name @ ''](#'' @ str_lower server_name @ '')''"

text \<open>
  \<^verbatim>\<open>if key in catalog_data: for server_name in catalog_data[key].keys(): ...\<close>
  (lines 37 to 39 and 44 to 46).
\<close>

definition toc_part :: "string list \<Rightarrow> json \<Rightarrow> string \<Rightarrow> py_error + string list" where
  "toc_part markdown catalog_data key =
     ebind (py_in key catalog_data) (\<lambda>present.
       if present
       then ebind (py_getitem catalog_data key) (\<lambda>servers.
            ebind (py_keys servers) (\<lambda>names.
              Inr (foldl (\<lambda>md server_name. md @ [toc_entry server_name]) markdown names)))
       else Inr markdown)"

text \<open>The loops over \<^verbatim>\<open>catalog_data["local"].items()\<close> and \<^verbatim>\<open>catalog_data["remote"].items()\<close>.\<close>

fun sections_loop ::
  "(string list \<Rightarrow> string \<Rightarrow> json \<Rightarrow> py_error + string list) \<Rightarrow>
   string list \<Rightarrow> (string \<times> json) list \<Rightarrow> py_error + string list" where
  "sections_loop section markdown [] = Inr markdown"
| "sections_loop section markdown (item # rest) =
     (case section markdown (fst item) (snd item) of
        Inl e \<Rightarrow> Inl e
      | Inr markdown' \<Rightarrow> sections_loop section markdown' rest)"

definition sections_part ::
  "(string list \<Rightarrow> string \<Rightarrow> json \<Rightarrow> py_error + string list) \<Rightarrow>
   string list \<Rightarrow> json \<Rightarrow> string \<Rightarrow> py_error + string list" where
  "sections_part section markdown catalog_data key =
     ebind (py_in key catalog_data) (\<lambda>present.
       if present
       then ebind (py_getitem catalog_data key) (\<lambda>servers.
            ebind (py_items servers) (\<lambda>items.
              sections_loop section markdown items))
       else Inr markdown)"

text \<open>
  The list \<^verbatim>\<open>markdown\<close> of \<^verbatim>\<open>generate_tool_catalog_markdown\<close> when it reaches its
  \<^verbatim>\<open>return\<close> (line 76).
\<close>

definition markdown_lines :: "json \<Rightarrow> py_error + string list" where
  "markdown_lines catalog_data =
     ebind (py_get catalog_data ''last_updated'' (JStr ''Unknown'')) (\<lambda>last_updated.
     ebind (toc_part
              [''# MCP Tool Catalog'',
               '''',
               ''This document provides a comprehensive overview of all available MCP tools,'',
               ''both local and remote, for task-specific configuration generation.'',
               '''',
               ''**Last Updated**: '' @ py_str last_updated,
               '''',
               ''## Table of Contents'',
               '''',
               ''- [Local Servers](#local-servers)'']
              catalog_data ''local'') (\<lambda>markdown.
     ebind (toc_part (markdown @ [''- [Remote Tools](#remote-tools)'']) catalog_data ''remote'') (\<lambda>markdown.
     ebind (sections_part generate_local_server_section
              (markdown @
                 [''- [Client Configuration Guide](#client-configuration-guide)'',
                  '''',
                  ''## Local Servers'',
                  '''',
                  ''Local servers run as separate processes and communicate via stdio transport.'',
                  ''They require complete command configuration in the client config.'',
                  ''''])
              catalog_data ''local'') (\<lambda>markdown.
     ebind (sections_part generate_remote_server_section
              (markdown @
                 [''## Remote Tools'',
                  '''',
                  ''Remote tools are accessible through the Toolman proxy server.'',
                  ''Only tool names are needed in the client config.'',
                  ''''])
              catalog_data ''remote'') (\<lambda>markdown.
     Inr (generate_configuration_guide markdown))))))"

definition generate_tool_catalog_markdown :: "json \<Rightarrow> py_error + string" where
  "generate_tool_catalog_markdown catalog_data =
     ebind (markdown_lines catalog_data) (\<lambda>markdown. Inr (join [CHR 0x0A] markdown))"

subsection \<open>The command line\<close>

text \<open>
  What \<^verbatim>\<open>open\<close> and \<^verbatim>\<open>json.load\<close> do with a path: the file is missing, its text is no
  JSON (with the text of the decoder's exception), another exception is raised (with
  its text), or a value is loaded.
\<close>

datatype load_result =
    FileNotFoundError
  | JSONDecodeError string
  | OtherException string
  | Loaded json

text \<open>\<^verbatim>\<open>str(e)\<close> of an exception of the renderer; for a \<^verbatim>\<open>KeyError\<close> it is the key's repr.\<close>

definition exception_str :: "py_error \<Rightarrow> string" where
  "exception_str e = (case e of
       AttributeError m \<Rightarrow> m | TypeError m \<Rightarrow> m | KeyError k \<Rightarrow> str_repr k)"

text \<open>
  A run: the arguments of the \<^verbatim>\<open>print\<close> calls that wrote to standard output, in order,
  and the exit status.
\<close>

record run =
  stdout :: "string list"
  exit_status :: nat

text \<open>
  \<^verbatim>\<open>print(markdown)\<close> stands inside the \<^verbatim>\<open>try\<close> block, so an exception that it raises
  (a \<^verbatim>\<open>UnicodeEncodeError\<close> of the output stream, for one) is caught by the last handler.
  \<open>print_raises markdown\<close> is the text of that exception, or \<open>None\<close> when the document is
  written; an exception is taken to be raised before any of the document is written,
  as an encoding error is. The \<^verbatim>\<open>print\<close> calls of the diagnostics are taken to succeed.
\<close>

definition main ::
  "string list \<Rightarrow> (string \<Rightarrow> load_result) \<Rightarrow> (string \<Rightarrow> string option) \<Rightarrow> run" where
  "main argv load_file print_raises =
     (if length argv \<noteq> 2
      then \<lparr>stdout = [''Usage: python3 generate-tool-catalog-markdown.py <tool-catalog.json>''],
            exit_status = 1\<rparr>
      else let catalog_file = argv ! 1 in
        (case load_file catalog_file of
           Loaded catalog_data \<Rightarrow>
             (case generate_tool_catalog_markdown catalog_data of
                Inr markdown \<Rightarrow>
                  (case print_raises markdown of
                     None \<Rightarrow> \<lparr>stdout = [markdown], exit_status = 0\<rparr>
                   | Some e \<Rightarrow> \<lparr>stdout = [''Error: '' @ e], exit_status = 1\<rparr>)
              | Inl e \<Rightarrow> \<lparr>stdout = [''Error: '' @ exception_str e], exit_status = 1\<rparr>)
         | FileNotFoundError \<Rightarrow>
             \<lparr>stdout = [''Error: File '' @ [CHR 0x27] @ catalog_file @ [CHR 0x27] @ '' not found''],
              exit_status = 1\<rparr>
         | JSONDecodeError e \<Rightarrow>
             \<lparr>stdout = [''Error: Invalid JSON in '' @ [CHR 0x27] @ catalog_file @ [CHR 0x27]
                        @ '': '' @ e],
              exit_status = 1\<rparr>
         | OtherException e \<Rightarrow> \<lparr>stdout = [''Error: '' @ e], exit_status = 1\<rparr>))"

subsection \<open>Notions used in the statements\<close>

text \<open>
  What a helper does to the list it receives when it only appends: \<open>extend md r\<close> puts
  the lines of \<open>r\<close> after \<open>md\<close>, and keeps an exception.
\<close>

definition extend :: "string list \<Rightarrow> py_error + string list \<Rightarrow> py_error + string list" where
  "extend md r = (case r of Inl e \<Rightarrow> Inl e | Inr ls \<Rightarrow> Inr (md @ ls))"

text \<open>The items of a dict, and no items for any other value.\<close>

definition items_of :: "json \<Rightarrow> (string \<times> json) list" where
  "items_of v = (case v of JObj kvs \<Rightarrow> kvs | _ \<Rightarrow> [])"

text \<open>The server names under a top-level key, in the order of the mapping.\<close>

definition server_names :: "(string \<times> json) list \<Rightarrow> string \<Rightarrow> string list" where
  "server_names c key = (case map_of c key of None \<Rightarrow> [] | Some v \<Rightarrow> map fst (items_of v))"

text \<open>Text of ASCII characters only.\<close>

definition ascii_only :: "string \<Rightarrow> bool" where
  "ascii_only s = list_all (\<lambda>c. (of_char c :: nat) < 128) s"

text \<open>A file system with one readable JSON file.\<close>

definition single_file :: "string \<Rightarrow> json \<Rightarrow> string \<Rightarrow> load_result" where
  "single_file path v p = (if p = path then Loaded v else FileNotFoundError)"

text \<open>
  The shape of a catalog in sections 3 and 6 of the specification: every key is optional,
  and a key that is present has a value of the stated type.
\<close>

definition field_ok :: "(string \<times> json) list \<Rightarrow> string \<Rightarrow> (json \<Rightarrow> bool) \<Rightarrow> bool" where
  "field_ok kvs k P = (case map_of kvs k of None \<Rightarrow> True | Some v \<Rightarrow> P v)"

definition is_str :: "json \<Rightarrow> bool" where
  "is_str v = (case v of JStr _ \<Rightarrow> True | _ \<Rightarrow> False)"

definition is_str_list :: "json \<Rightarrow> bool" where
  "is_str_list v = (case v of JArr xs \<Rightarrow> list_all is_str xs | _ \<Rightarrow> False)"

definition param_conforms :: "json \<Rightarrow> bool" where
  "param_conforms v = (case v of
       JObj kvs \<Rightarrow> field_ok kvs ''type'' is_str \<and> field_ok kvs ''description'' is_str
     | _ \<Rightarrow> False)"

definition properties_conform :: "json \<Rightarrow> bool" where
  "properties_conform v = (case v of
       JObj kvs \<Rightarrow> list_all (\<lambda>kv. param_conforms (snd kv)) kvs
     | _ \<Rightarrow> False)"

definition schema_conforms :: "json \<Rightarrow> bool" where
  "schema_conforms v = (case v of
       JObj kvs \<Rightarrow> field_ok kvs ''properties'' properties_conform
                 \<and> field_ok kvs ''required'' is_str_list
     | _ \<Rightarrow> False)"

definition tool_conforms :: "json \<Rightarrow> bool" where
  "tool_conforms v = (case v of
       JObj kvs \<Rightarrow> field_ok kvs ''name'' is_str
                 \<and> field_ok kvs ''description'' is_str
                 \<and> field_ok kvs ''category'' is_str
                 \<and> field_ok kvs ''use_cases'' is_str_list
                 \<and> field_ok kvs ''input_schema'' schema_conforms
     | _ \<Rightarrow> False)"

definition tools_conform :: "json \<Rightarrow> bool" where
  "tools_conform v = (case v of JArr ts \<Rightarrow> list_all tool_conforms ts | _ \<Rightarrow> False)"

definition server_conforms :: "json \<Rightarrow> bool" where
  "server_conforms v = (case v of
       JObj kvs \<Rightarrow> field_ok kvs ''description'' is_str
                 \<and> field_ok kvs ''command'' is_str
                 \<and> field_ok kvs ''args'' is_str_list
                 \<and> field_ok kvs ''working_directory'' is_str
                 \<and> field_ok kvs ''endpoint'' is_str
                 \<and> field_ok kvs ''tools'' tools_conform
     | _ \<Rightarrow> False)"

definition servers_conform :: "json \<Rightarrow> bool" where
  "servers_conform v = (case v of
       JObj kvs \<Rightarrow> list_all (\<lambda>kv. server_conforms (snd kv)) kvs
     | _ \<Rightarrow> False)"

definition catalog_conforms :: "json \<Rightarrow> bool" where
  "catalog_conforms v = (case v of
       JObj kvs \<Rightarrow> field_ok kvs ''last_updated'' is_str
                 \<and> field_ok kvs ''local'' servers_conform
                 \<and> field_ok kvs ''remote'' servers_conform
     | _ \<Rightarrow> False)"

section \<open>Properties\<close>

subsection \<open>Sequencing and appending\<close>

lemma extend_simps [simp]:
  "extend md (Inl e) = Inl e"
  "extend md (Inr ls) = Inr (md @ ls)"
  by (simp_all add: extend_def)

lemma extend_extend [simp]: "extend a (extend b r) = extend (a @ b) r"
  by (cases r) simp_all

lemma extend_Nil [simp]: "extend [] r = r"
  by (cases r) simp_all

lemma extend_Inr_iff: "extend md r = Inr ls \<longleftrightarrow> (\<exists>xs. r = Inr xs \<and> ls = md @ xs)"
  by (cases r) auto

lemma ebind_simps [simp]:
  "ebind (Inl e) f = Inl e"
  "ebind (Inr x) f = f x"
  by (simp_all add: ebind_def)

lemma ebind_Inr_iff: "ebind m f = Inr y \<longleftrightarrow> (\<exists>x. m = Inr x \<and> f x = Inr y)"
  by (cases m) auto

lemma extend_ebind: "extend md (ebind m f) = ebind m (\<lambda>x. extend md (f x))"
  by (cases m) simp_all

lemma ebind_extend: "ebind (extend md r) f = ebind r (\<lambda>xs. f (md @ xs))"
  by (cases r) simp_all

lemma extend_if: "extend md (if b then x else y) = (if b then extend md x else extend md y)"
  by simp

lemmas frame_simps = extend_ebind ebind_extend extend_if

lemma parameters_loop_frame:
  "parameters_loop (md @ xs) indent required items = extend md (parameters_loop xs indent required items)"
proof (induction items arbitrary: xs)
  case Nil
  show ?case by simp
next
  case (Cons item rest)
  show ?case
    using Cons.IH [of "xs @ _"] by (simp split: sum.splits)
qed

lemma use_cases_part_frame:
  "use_cases_part (md @ xs) indent u = extend md (use_cases_part xs indent u)"
  by (simp add: use_cases_part_def frame_simps cong: if_cong)

lemma input_schema_part_frame:
  "input_schema_part (md @ xs) indent u = extend md (input_schema_part xs indent u)"
  by (simp add: input_schema_part_def frame_simps parameters_loop_frame cong: if_cong)

lemma generate_tool_documentation_frame:
  "generate_tool_documentation (md @ xs) tool indent = extend md (generate_tool_documentation xs tool indent)"
  by (simp add: generate_tool_documentation_def frame_simps use_cases_part_frame
        input_schema_part_frame cong: if_cong)

lemma tools_loop_frame:
  "tools_loop (md @ xs) tools = extend md (tools_loop xs tools)"
proof (induction tools arbitrary: xs)
  case Nil
  show ?case by simp
next
  case (Cons tool rest)
  show ?case
    by (cases "generate_tool_documentation xs tool []")
       (simp_all add: generate_tool_documentation_frame Cons.IH)
qed

lemma tools_part_frame:
  "tools_part (md @ xs) info = extend md (tools_part xs info)"
  by (simp add: tools_part_def frame_simps tools_loop_frame cong: if_cong)

lemma args_part_frame:
  "args_part (md @ xs) args = extend md (args_part xs args)"
  by (simp add: args_part_def frame_simps cong: if_cong)

lemma server_configuration_part_frame:
  "server_configuration_part (md @ xs) info = extend md (server_configuration_part xs info)"
  by (simp add: server_configuration_part_def frame_simps args_part_frame cong: if_cong)

lemma endpoint_part_frame:
  "endpoint_part (md @ xs) info = extend md (endpoint_part xs info)"
  by (simp add: endpoint_part_def frame_simps cong: if_cong)

lemma generate_local_server_section_frame:
  "generate_local_server_section (md @ xs) name info =
   extend md (generate_local_server_section xs name info)"
  by (simp add: generate_local_server_section_def frame_simps
        server_configuration_part_frame tools_part_frame cong: if_cong)

lemma generate_remote_server_section_frame:
  "generate_remote_server_section (md @ xs) name info =
   extend md (generate_remote_server_section xs name info)"
  by (simp add: generate_remote_server_section_def frame_simps
        endpoint_part_frame tools_part_frame cong: if_cong)

lemma foldl_append_line: "foldl (\<lambda>md x. md @ [f x]) md xs = md @ map f xs"
  by (induction xs arbitrary: md) simp_all

lemma toc_part_frame:
  "toc_part (md @ xs) c key = extend md (toc_part xs c key)"
  by (simp add: toc_part_def frame_simps foldl_append_line cong: if_cong)

lemma sections_loop_frame:
  assumes "\<forall>md xs name info. section (md @ xs) name info = extend md (section xs name info)"
  shows "sections_loop section (md @ xs) items = extend md (sections_loop section xs items)"
proof (induction items arbitrary: xs)
  case Nil
  show ?case by simp
next
  case (Cons item rest)
  show ?case
    by (cases "section xs (fst item) (snd item)") (simp_all add: assms Cons.IH)
qed

lemma sections_part_frame:
  assumes "\<forall>md xs name info. section (md @ xs) name info = extend md (section xs name info)"
  shows "sections_part section (md @ xs) c key = extend md (sections_part section xs c key)"
  by (simp add: sections_part_def frame_simps sections_loop_frame [OF assms] cong: if_cong)

lemma toc_part_Cons:
  "toc_part (x # xs) c key = extend [x] (toc_part xs c key)"
  using toc_part_frame [of "[x]" xs c key] by simp

lemma local_sections_frame:
  "sections_part generate_local_server_section (md @ xs) c key =
   extend md (sections_part generate_local_server_section xs c key)"
  by (rule sections_part_frame) (simp add: generate_local_server_section_frame)

lemma remote_sections_frame:
  "sections_part generate_remote_server_section (md @ xs) c key =
   extend md (sections_part generate_remote_server_section xs c key)"
  by (rule sections_part_frame) (simp add: generate_remote_server_section_frame)

lemma local_sections_Cons:
  "sections_part generate_local_server_section (x # xs) c key =
   extend [x] (sections_part generate_local_server_section xs c key)"
  using local_sections_frame [of "[x]" xs c key] by simp

lemma remote_sections_Cons:
  "sections_part generate_remote_server_section (x # xs) c key =
   extend [x] (sections_part generate_remote_server_section xs c key)"
  using remote_sections_frame [of "[x]" xs c key] by simp

lemma markdown_lines_eq:
  "markdown_lines c =
     ebind (py_get c ''last_updated'' (JStr ''Unknown'')) (\<lambda>last_updated.
     ebind (toc_part [] c ''local'') (\<lambda>toc_local.
     ebind (toc_part [] c ''remote'') (\<lambda>toc_remote.
     ebind (sections_part generate_local_server_section [] c ''local'') (\<lambda>local_sections.
     ebind (sections_part generate_remote_server_section [] c ''remote'') (\<lambda>remote_sections.
       Inr ([''# MCP Tool Catalog'',
             '''',
             ''This document provides a comprehensive overview of all available MCP tools,'',
             ''both local and remote, for task-specific configuration generation.'',
             '''',
             ''**Last Updated**: '' @ py_str last_updated,
             '''',
             ''## Table of Contents'',
             '''',
             ''- [Local Servers](#local-servers)'']
            @ toc_local
            @ [''- [Remote Tools](#remote-tools)'']
            @ toc_remote
            @ [''- [Client Configuration Guide](#client-configuration-guide)'',
               '''',
               ''## Local Servers'',
               '''',
               ''Local servers run as separate processes and communicate via stdio transport.'',
               ''They require complete command configuration in the client config.'',
               '''']
            @ local_sections
            @ [''## Remote Tools'',
               '''',
               ''Remote tools are accessible through the Toolman proxy server.'',
               ''Only tool names are needed in the client config.'',
               '''']
            @ remote_sections
            @ generate_configuration_guide []))))))"
  by (simp add: markdown_lines_def toc_part_frame toc_part_Cons local_sections_frame
        remote_sections_frame local_sections_Cons remote_sections_Cons ebind_extend generate_configuration_guide_def)

lemma key_present_iff: "key \<in> fst ` set c \<longleftrightarrow> map_of c key \<noteq> None"
  by (simp add: map_of_eq_None_iff)

lemma toc_part_JObj:
  "toc_part [] (JObj c) key =
     (case map_of c key of
        None \<Rightarrow> Inr []
      | Some v \<Rightarrow> ebind (py_keys v) (\<lambda>names. Inr (map toc_entry names)))"
  by (auto simp: toc_part_def py_in_def py_getitem_def foldl_append_line key_present_iff
        split: option.splits)

lemma sections_part_JObj:
  "sections_part section [] (JObj c) key =
     (case map_of c key of
        None \<Rightarrow> Inr []
      | Some v \<Rightarrow> ebind (py_items v) (sections_loop section []))"
  by (auto simp: sections_part_def py_in_def py_getitem_def key_present_iff
        split: option.splits)

subsection \<open>The last-updated line\<close>

text \<open>
  C10. When the catalog has no key \<^verbatim>\<open>last_updated\<close> and is rendered, the sixth line of the
  document is \<^verbatim>\<open>**Last Updated**: Unknown\<close>.
\<close>

theorem last_updated_absent_unknown:
  assumes "map_of c ''last_updated'' = None"
    and "markdown_lines (JObj c) = Inr ls"
  shows "ls ! 5 = ''**Last Updated**: Unknown''"
  using assms
  by (auto simp: markdown_lines_eq ebind_Inr_iff py_get_def dict_get_def py_str_def)

theorem last_updated_absent_unknown_witness:
  "map_of [(''local'', JObj [])] ''last_updated'' = None
   \<and> map_sum id (\<lambda>ls. ls ! 5) (markdown_lines (JObj [(''local'', JObj [])]))
       = Inr ''**Last Updated**: Unknown''"
proof -
  have a: "map_of [(''local'', JObj [])] ''last_updated'' = None"
    by simp
  obtain ls where b: "markdown_lines (JObj [(''local'', JObj [])]) = Inr ls"
    by (simp add: markdown_lines_eq toc_part_JObj sections_part_JObj py_get_def py_keys_def
          py_items_def)
  from last_updated_absent_unknown [OF a b] a b show ?thesis
    by simp
qed

subsection \<open>Exit status and diagnostics of the command line\<close>

text \<open>
  C6. A run with a wrong number of arguments, with a missing file, or with a file that is
  no JSON prints exactly one line, a diagnostic, and exits with status 1; for a file that
  is no JSON the line names the file and ends with the text of the decoder's exception.
  No line of markdown is printed in any of the three cases.
\<close>

theorem main_failure_exit_status:
  "(length argv \<noteq> 2 \<longrightarrow>
      main argv load_file print_raises =
        \<lparr>stdout = [''Usage: python3 generate-tool-catalog-markdown.py <tool-catalog.json>''],
         exit_status = 1\<rparr>)
   \<and> (length argv = 2 \<and> load_file (argv ! 1) = FileNotFoundError \<longrightarrow>
      main argv load_file print_raises =
        \<lparr>stdout = [''Error: File '' @ [CHR 0x27] @ argv ! 1 @ [CHR 0x27] @ '' not found''],
         exit_status = 1\<rparr>)
   \<and> (length argv = 2 \<and> load_file (argv ! 1) = JSONDecodeError d \<longrightarrow>
      main argv load_file print_raises =
        \<lparr>stdout = [''Error: Invalid JSON in '' @ [CHR 0x27] @ argv ! 1 @ [CHR 0x27] @ '': '' @ d],
         exit_status = 1\<rparr>)"
  by (simp add: main_def)

theorem main_failure_exit_status_witness:
  "main [''generate-tool-catalog-markdown.py''] (single_file ''catalog.json'' JNull) Map.empty =
     \<lparr>stdout = [''Usage: python3 generate-tool-catalog-markdown.py <tool-catalog.json>''],
      exit_status = 1\<rparr>
   \<and> main [''generate-tool-catalog-markdown.py'', ''missing.json'']
        (single_file ''catalog.json'' JNull) Map.empty =
     \<lparr>stdout = [''Error: File '' @ [CHR 0x27] @ ''missing.json'' @ [CHR 0x27] @ '' not found''],
      exit_status = 1\<rparr>
   \<and> main [''generate-tool-catalog-markdown.py'', ''bad.json'']
        (\<lambda>p. JSONDecodeError ''Expecting value: line 1 column 1 (char 0)'') Map.empty =
     \<lparr>stdout = [''Error: Invalid JSON in '' @ [CHR 0x27] @ ''bad.json'' @ [CHR 0x27]
                @ '': Expecting value: line 1 column 1 (char 0)''],
      exit_status = 1\<rparr>"
  using main_failure_exit_status
          [of "[''generate-tool-catalog-markdown.py'']" "single_file ''catalog.json'' JNull" Map.empty]
        main_failure_exit_status
          [of "[''generate-tool-catalog-markdown.py'', ''missing.json'']"
              "single_file ''catalog.json'' JNull" Map.empty]
        main_failure_exit_status
          [of "[''generate-tool-catalog-markdown.py'', ''bad.json'']"
              "\<lambda>p. JSONDecodeError ''Expecting value: line 1 column 1 (char 0)''" Map.empty
              "''Expecting value: line 1 column 1 (char 0)''"]
  by (simp add: single_file_def)

lemma nat_digits_small: "n < 10 \<Longrightarrow> nat_digits n = [''0123456789'' ! n]"
  by (simp add: nat_digits.simps)

lemmas python_defs =
  py_get_def dict_get_def py_str_def py_keys_def py_items_def py_in_def py_getitem_def
  py_len_def py_iter_def py_truthy_def py_join_def is_dict_def

lemmas string_defs =
  str_title_def str_lower_def char_title_def char_lower_def is_cased_def
  upper_letters_def lower_letters_def toc_entry_def

lemmas section_defs =
  generate_local_server_section_def generate_remote_server_section_def
  server_configuration_part_def args_part_def endpoint_part_def tools_part_def
  generate_tool_documentation_def use_cases_part_def input_schema_part_def

subsection \<open>The end-to-end example\<close>

text \<open>
  C8. For the catalog with the one local server \<^verbatim>\<open>filesystem\<close> of the specification's
  example, the document has the heading \<^verbatim>\<open>### Filesystem\<close>, a fenced block with the lines
  \<^verbatim>\<open>"command": "npx"\<close> and \<^verbatim>\<open>"args": ["-y", "pkg"]\<close>, and a tool block headed
  \<^verbatim>\<open>#### `read_file`\<close> with the line \<^verbatim>\<open>**Category**: io\<close>; the whole document is the one
  given here.
\<close>

theorem filesystem_example_document:
  "generate_tool_catalog_markdown
     (JObj [(''local'', JObj [(''filesystem'', JObj
        [(''description'', JStr ''FS ops''),
         (''command'', JStr ''npx''),
         (''args'', JArr [JStr ''-y'', JStr ''pkg'']),
         (''tools'', JArr [JObj
            [(''name'', JStr ''read_file''),
             (''description'', JStr ''Read a file''),
             (''category'', JStr ''io'')]])])])])
   = Inr (join [CHR 0x0A]
       ([''# MCP Tool Catalog'',
         '''',
         ''This document provides a comprehensive overview of all available MCP tools,'',
         ''both local and remote, for task-specific configuration generation.'',
         '''',
         ''**Last Updated**: Unknown'',
         '''',
         ''## Table of Contents'',
         '''',
         ''- [Local Servers](#local-servers)'',
         ''  - [Filesystem](#filesystem)'',
         ''- [Remote Tools](#remote-tools)'',
         ''- [Client Configuration Guide](#client-configuration-guide)'',
         '''',
         ''## Local Servers'',
         '''',
         ''Local servers run as separate processes and communicate via stdio transport.'',
         ''They require complete command configuration in the client config.'',
         '''',
         ''### Filesystem'',
         '''',
         ''**Description**: FS ops'',
         '''',
         ''**Server Configuration**:'',
         ''```json'',
         ''{'',
         ''  \"command\": \"npx\"'',
         ''  \"args\": [\"-y\", \"pkg\"]'',
         ''  \"workingDirectory\": \"project_root\"'',
         ''}'',
         ''```'',
         '''',
         ''**Available Tools** (1 tools):'',
         '''',
         ''#### `read_file`'',
         '''',
         ''**Description**: Read a file'',
         '''',
         ''**Category**: io'',
         '''',
         ''## Remote Tools'',
         '''',
         ''Remote tools are accessible through the Toolman proxy server.'',
         ''Only tool names are needed in the client config.'',
         '''']
        @ generate_configuration_guide []))"
proof -
  have "markdown_lines
     (JObj [(''local'', JObj [(''filesystem'', JObj
        [(''description'', JStr ''FS ops''),
         (''command'', JStr ''npx''),
         (''args'', JArr [JStr ''-y'', JStr ''pkg'']),
         (''tools'', JArr [JObj
            [(''name'', JStr ''read_file''),
             (''description'', JStr ''Read a file''),
             (''category'', JStr ''io'')]])])])])
   = Inr
       ([''# MCP Tool Catalog'',
         '''',
         ''This document provides a comprehensive overview of all available MCP tools,'',
         ''both local and remote, for task-specific configuration generation.'',
         '''',
         ''**Last Updated**: Unknown'',
         '''',
         ''## Table of Contents'',
         '''',
         ''- [Local Servers](#local-servers)'',
         ''  - [Filesystem](#filesystem)'',
         ''- [Remote Tools](#remote-tools)'',
         ''- [Client Configuration Guide](#client-configuration-guide)'',
         '''',
         ''## Local Servers'',
         '''',
         ''Local servers run as separate processes and communicate via stdio transport.'',
         ''They require complete command configuration in the client config.'',
         '''',
         ''### Filesystem'',
         '''',
         ''**Description**: FS ops'',
         '''',
         ''**Server Configuration**:'',
         ''```json'',
         ''{'',
         ''  \"command\": \"npx\"'',
         ''  \"args\": [\"-y\", \"pkg\"]'',
         ''  \"workingDirectory\": \"project_root\"'',
         ''}'',
         ''```'',
         '''',
         ''**Available Tools** (1 tools):'',
         '''',
         ''#### `read_file`'',
         '''',
         ''**Description**: Read a file'',
         '''',
         ''**Category**: io'',
         '''',
         ''## Remote Tools'',
         '''',
         ''Remote tools are accessible through the Toolman proxy server.'',
         ''Only tool names are needed in the client config.'',
         '''']
        @ generate_configuration_guide [])"
    by (simp add: markdown_lines_eq toc_part_JObj sections_part_JObj python_defs string_defs
          section_defs nat_digits_small)
  then show ?thesis
    by (simp only: generate_tool_catalog_markdown_def ebind_simps)
qed

subsection \<open>The empty catalog\<close>



subsection \<open>Tool blocks\<close>

lemma frame_Nil:
  "use_cases_part md indent u = extend md (use_cases_part [] indent u)"
  "input_schema_part md indent v = extend md (input_schema_part [] indent v)"
  "parameters_loop md indent required items = extend md (parameters_loop [] indent required items)"
  "generate_tool_documentation md tool indent = extend md (generate_tool_documentation [] tool indent)"
  "tools_loop md tools = extend md (tools_loop [] tools)"
  "tools_part md info = extend md (tools_part [] info)"
  "args_part md args = extend md (args_part [] args)"
  "server_configuration_part md info = extend md (server_configuration_part [] info)"
  "endpoint_part md info = extend md (endpoint_part [] info)"
  "generate_local_server_section md name info = extend md (generate_local_server_section [] name info)"
  "generate_remote_server_section md name info = extend md (generate_remote_server_section [] name info)"
  using use_cases_part_frame [of md "[]"] input_schema_part_frame [of md "[]"]
    parameters_loop_frame [of md "[]"] generate_tool_documentation_frame [of md "[]"]
    tools_loop_frame [of md "[]"] tools_part_frame [of md "[]"] args_part_frame [of md "[]"]
    server_configuration_part_frame [of md "[]"] endpoint_part_frame [of md "[]"]
    generate_local_server_section_frame [of md "[]"]
    generate_remote_server_section_frame [of md "[]"]
  by simp_all

lemma generate_tool_documentation_lines:
  "generate_tool_documentation [] (JObj kvs) indent =
     ebind (use_cases_part [] indent (dict_get kvs ''use_cases'' (JArr []))) (\<lambda>use_cases_lines.
     ebind (input_schema_part [] indent (dict_get kvs ''input_schema'' JNull)) (\<lambda>parameter_lines.
       Inr ([indent @ ''#### `'' @ py_str (dict_get kvs ''name'' (JStr ''unknown'')) @ ''`'',
             indent,
             indent @ ''**Description**: ''
               @ py_str (dict_get kvs ''description'' (JStr ''No description available'')),
             indent,
             indent @ ''**Category**: '' @ py_str (dict_get kvs ''category'' (JStr ''general''))]
            @ use_cases_lines @ parameter_lines @ [indent])))"
proof -
  have "generate_tool_documentation [] (JObj kvs) indent =
     ebind (use_cases_part
              [indent @ ''#### `'' @ py_str (dict_get kvs ''name'' (JStr ''unknown'')) @ ''`'',
               indent,
               indent @ ''**Description**: ''
                 @ py_str (dict_get kvs ''description'' (JStr ''No description available'')),
               indent,
               indent @ ''**Category**: '' @ py_str (dict_get kvs ''category'' (JStr ''general''))]
              indent (dict_get kvs ''use_cases'' (JArr []))) (\<lambda>markdown.
     ebind (input_schema_part markdown indent (dict_get kvs ''input_schema'' JNull)) (\<lambda>markdown.
       Inr (markdown @ [indent])))"
    by (simp add: generate_tool_documentation_def py_get_def)
  also have "\<dots> = ebind (use_cases_part [] indent (dict_get kvs ''use_cases'' (JArr []))) (\<lambda>use_cases_lines.
     ebind (input_schema_part [] indent (dict_get kvs ''input_schema'' JNull)) (\<lambda>parameter_lines.
       Inr ([indent @ ''#### `'' @ py_str (dict_get kvs ''name'' (JStr ''unknown'')) @ ''`'',
             indent,
             indent @ ''**Description**: ''
               @ py_str (dict_get kvs ''description'' (JStr ''No description available'')),
             indent,
             indent @ ''**Category**: '' @ py_str (dict_get kvs ''category'' (JStr ''general''))]
            @ use_cases_lines @ parameter_lines @ [indent])))"
    by (subst frame_Nil(1), subst frame_Nil(2)) (simp add: ebind_extend)
  finally show ?thesis .
qed

lemma generate_tool_documentation_heading:
  assumes "generate_tool_documentation [] tool indent = Inr block"
  shows "hd block = indent @ ''#### `'' @ py_str (dict_get (items_of tool) ''name'' (JStr ''unknown'')) @ ''`''"
proof (cases tool)
  case (JObj kvs)
  with assms show ?thesis
    by (auto simp: generate_tool_documentation_lines ebind_Inr_iff items_of_def)
qed (use assms in \<open>simp_all add: generate_tool_documentation_def py_get_def\<close>)

lemma tools_loop_blocks:
  assumes "tools_loop [] tools = Inr ls"
  shows "\<exists>blocks. ls = concat blocks
           \<and> map (\<lambda>tool. generate_tool_documentation [] tool '''') tools = map Inr blocks"
  using assms
proof (induction tools arbitrary: ls)
  case Nil
  then show ?case by simp
next
  case (Cons tool rest)
  from Cons.prems obtain block where
    block: "generate_tool_documentation [] tool [] = Inr block" and
    loop: "tools_loop block rest = Inr ls"
    by (auto split: sum.splits)
  from loop obtain ls' where
    rest: "tools_loop [] rest = Inr ls'" and ls: "ls = block @ ls'"
    using frame_Nil(5) [of block rest] by (auto simp: extend_Inr_iff)
  from Cons.IH [OF rest] obtain blocks where
    "ls' = concat blocks" "map (\<lambda>tool. generate_tool_documentation [] tool '''') rest = map Inr blocks"
    by blast
  with block ls show ?case
    by (intro exI [of _ "block # blocks"]) simp
qed


lemma tools_part_blocks:
  assumes "tools_part [] (JObj info) = Inr ls"
    and "dict_get info ''tools'' (JArr []) = JArr tools"
  shows "\<exists>blocks. ls = (if tools = [] then []
                         else [''**Available Tools** ('' @ nat_digits (length tools) @ '' tools):'', ''''])
                        @ concat blocks
           \<and> map (\<lambda>tool. generate_tool_documentation [] tool '''') tools = map Inr blocks"
proof (cases "tools = []")
  case True
  with assms show ?thesis
    by (simp add: tools_part_def py_get_def py_truthy_def)
next
  case False
  with assms have
    "extend [''**Available Tools** ('' @ nat_digits (length tools) @ '' tools):'', '''']
       (tools_loop [] tools) = Inr ls"
    using frame_Nil(5) [of "[''**Available Tools** ('' @ nat_digits (length tools) @ '' tools):'', '''']" tools]
    by (simp add: tools_part_def py_get_def py_truthy_def py_len_def py_iter_def)
  then obtain tl where "tools_loop [] tools = Inr tl"
    and "ls = [''**Available Tools** ('' @ nat_digits (length tools) @ '' tools):'', ''''] @ tl"
    by (auto simp: extend_Inr_iff)
  with tools_loop_blocks [of tools tl] False show ?thesis
    by auto
qed

lemma section_ends_with_tools:
  assumes "generate_local_server_section md name info = Inr md'
           \<or> generate_remote_server_section md name info = Inr md'"
  shows "\<exists>pre tl. tools_part [] info = Inr tl \<and> md' = md @ pre @ tl"
proof -
  have "\<exists>pre tl. tools_part [] info = Inr tl \<and> ls = pre @ tl"
    if "generate_local_server_section [] name info = Inr ls
        \<or> generate_remote_server_section [] name info = Inr ls" for ls
  proof -
    from that obtain pre where "tools_part pre info = Inr ls"
      by (auto simp: generate_local_server_section_def generate_remote_server_section_def
            ebind_Inr_iff)
    then show ?thesis
      using frame_Nil(6) [of pre info] by (auto simp: extend_Inr_iff)
  qed
  with assms show ?thesis
    using frame_Nil(10) [of md name info] frame_Nil(11) [of md name info]
    by (auto simp: extend_Inr_iff)
qed

text \<open>
  C2. A rendered server section, local or remote, ends with the blocks of its tools in the
  order of the input sequence: the section is some lines, then (when there is a tool) the
  line with the tool count and an empty line, then the block of the first tool, of the
  second, and so on. The block of a tool is what \<open>generate_tool_documentation\<close> renders
  for it, and it starts with the heading of that tool's name.
\<close>

theorem tool_blocks_in_input_order:
  assumes "generate_local_server_section md name (JObj info) = Inr md'
           \<or> generate_remote_server_section md name (JObj info) = Inr md'"
    and "dict_get info ''tools'' (JArr []) = JArr tools"
  shows "\<exists>pre blocks.
           md' = md @ pre
                 @ (if tools = [] then []
                    else [''**Available Tools** ('' @ nat_digits (length tools) @ '' tools):'', ''''])
                 @ concat blocks
           \<and> map (\<lambda>tool. generate_tool_documentation [] tool '''') tools = map Inr blocks
           \<and> map hd blocks =
               map (\<lambda>tool. ''#### `'' @ py_str (dict_get (items_of tool) ''name'' (JStr ''unknown''))
                            @ ''`'') tools"
proof -
  from section_ends_with_tools [OF assms(1)] obtain pre tl where
    tl: "tools_part [] (JObj info) = Inr tl" and md': "md' = md @ pre @ tl"
    by blast
  from tools_part_blocks [OF tl assms(2)] obtain blocks where
    blocks: "tl = (if tools = [] then []
                   else [''**Available Tools** ('' @ nat_digits (length tools) @ '' tools):'', ''''])
                  @ concat blocks"
      "map (\<lambda>tool. generate_tool_documentation [] tool '''') tools = map Inr blocks"
    by blast
  have "map hd blocks =
        map (\<lambda>tool. ''#### `'' @ py_str (dict_get (items_of tool) ''name'' (JStr ''unknown''))
                     @ ''`'') tools"
  proof (rule nth_equalityI)
    show len: "length (map hd blocks) = length (map (\<lambda>tool. ''#### `''
        @ py_str (dict_get (items_of tool) ''name'' (JStr ''unknown'')) @ ''`'') tools)"
      using arg_cong [OF blocks(2), of length] by simp
    fix i assume "i < length (map hd blocks)"
    then have i: "i < length blocks" "i < length tools"
      using len by simp_all
    from arg_cong [OF blocks(2), of "\<lambda>xs. xs ! i"] i
    have "generate_tool_documentation [] (tools ! i) '''' = Inr (blocks ! i)"
      by simp
    from generate_tool_documentation_heading [OF this] i
    show "map hd blocks ! i = map (\<lambda>tool. ''#### `''
        @ py_str (dict_get (items_of tool) ''name'' (JStr ''unknown'')) @ ''`'') tools ! i"
      by simp
  qed
  with md' blocks show ?thesis
    by (intro exI [of _ pre] exI [of _ blocks]) simp
qed


theorem tool_blocks_in_input_order_witness:
  "generate_local_server_section [] ''fs''
     (JObj [(''tools'', JArr [JObj [(''name'', JStr ''zeta'')], JObj [(''name'', JStr ''alpha'')]])])
   = Inr [''### Fs'', '''', ''**Description**: No description available'', '''',
          ''**Available Tools** (2 tools):'', '''',
          ''#### `zeta`'', '''', ''**Description**: No description available'', '''',
          ''**Category**: general'', '''',
          ''#### `alpha`'', '''', ''**Description**: No description available'', '''',
          ''**Category**: general'', '''']
   \<and> dict_get [(''tools'', JArr [JObj [(''name'', JStr ''zeta'')], JObj [(''name'', JStr ''alpha'')]])]
         ''tools'' (JArr [])
       = JArr [JObj [(''name'', JStr ''zeta'')], JObj [(''name'', JStr ''alpha'')]]
   \<and> (\<exists>pre blocks.
         [''### Fs'', '''', ''**Description**: No description available'', '''',
          ''**Available Tools** (2 tools):'', '''',
          ''#### `zeta`'', '''', ''**Description**: No description available'', '''',
          ''**Category**: general'', '''',
          ''#### `alpha`'', '''', ''**Description**: No description available'', '''',
          ''**Category**: general'', '''']
         = pre @ [''**Available Tools** (2 tools):'', ''''] @ concat blocks
         \<and> map hd blocks = [''#### `zeta`'', ''#### `alpha`''])"
proof -
  have a: "generate_local_server_section [] ''fs''
     (JObj [(''tools'', JArr [JObj [(''name'', JStr ''zeta'')], JObj [(''name'', JStr ''alpha'')]])])
   = Inr [''### Fs'', '''', ''**Description**: No description available'', '''',
          ''**Available Tools** (2 tools):'', '''',
          ''#### `zeta`'', '''', ''**Description**: No description available'', '''',
          ''**Category**: general'', '''',
          ''#### `alpha`'', '''', ''**Description**: No description available'', '''',
          ''**Category**: general'', '''']"
    by (simp add: section_defs python_defs string_defs nat_digits_small)
  have b: "dict_get [(''tools'', JArr [JObj [(''name'', JStr ''zeta'')], JObj [(''name'', JStr ''alpha'')]])]
         ''tools'' (JArr [])
       = JArr [JObj [(''name'', JStr ''zeta'')], JObj [(''name'', JStr ''alpha'')]]"
    by (simp add: dict_get_def)
  from tool_blocks_in_input_order [OF disjI1 [OF a] b] obtain pre blocks where
    c: "[''### Fs'', '''', ''**Description**: No description available'', '''',
          ''**Available Tools** (2 tools):'', '''',
          ''#### `zeta`'', '''', ''**Description**: No description available'', '''',
          ''**Category**: general'', '''',
          ''#### `alpha`'', '''', ''**Description**: No description available'', '''',
          ''**Category**: general'', '''']
        = [] @ pre
          @ (if [JObj [(''name'', JStr ''zeta'')], JObj [(''name'', JStr ''alpha'')]] = [] then []
             else [''**Available Tools** (''
                   @ nat_digits (length [JObj [(''name'', JStr ''zeta'')], JObj [(''name'', JStr ''alpha'')]])
                   @ '' tools):'', ''''])
          @ concat blocks" and
    d: "map hd blocks =
        map (\<lambda>tool. ''#### `'' @ py_str (dict_get (items_of tool) ''name'' (JStr ''unknown'')) @ ''`'')
          [JObj [(''name'', JStr ''zeta'')], JObj [(''name'', JStr ''alpha'')]]"
    by blast
  from c have c': "[''### Fs'', '''', ''**Description**: No description available'', '''',
          ''**Available Tools** (2 tools):'', '''',
          ''#### `zeta`'', '''', ''**Description**: No description available'', '''',
          ''**Category**: general'', '''',
          ''#### `alpha`'', '''', ''**Description**: No description available'', '''',
          ''**Category**: general'', '''']
         = pre @ [''**Available Tools** (2 tools):'', ''''] @ concat blocks"
    by (simp add: nat_digits_small)
  from d have d': "map hd blocks = [''#### `zeta`'', ''#### `alpha`'']"
    by (simp add: items_of_def dict_get_def py_str_def)
  show ?thesis
    by (intro conjI exI [of _ pre] exI [of _ blocks]) (rule a b c' d')+
qed

subsection \<open>Parameters and the required marker\<close>

lemma extend_InrD:
  assumes "x = Inr ls" and "x = extend md r"
  shows "\<exists>xs. r = Inr xs \<and> ls = md @ xs"
  using assms by (cases r) auto

lemma parameters_loop_lines:
  assumes "parameters_loop [] indent (JArr required) items = Inr ls"
  shows "ls = map (\<lambda>param.
                 indent @ ''- `'' @ fst param @ ''` (''
                 @ py_str (dict_get (items_of (snd param)) ''type'' (JStr ''unknown'')) @ '')''
                 @ (if JStr (fst param) \<in> set required then '' *(required)*'' else '''')
                 @ '': ''
                 @ py_str (dict_get (items_of (snd param)) ''description'' (JStr ''No description'')))
               items"
  using assms
proof (induction items arbitrary: ls)
  case Nil
  then show ?case by simp
next
  case (Cons item rest)
  from Cons.prems obtain kvs where kvs: "snd item = JObj kvs"
    by (cases "snd item") (simp_all add: py_get_def)
  let ?line = "indent @ ''- `'' @ fst item @ ''` (''
                 @ py_str (dict_get kvs ''type'' (JStr ''unknown'')) @ '')''
                 @ (if JStr (fst item) \<in> set required then '' *(required)*'' else '''')
                 @ '': ''
                 @ py_str (dict_get kvs ''description'' (JStr ''No description''))"
  from Cons.prems kvs have "parameters_loop [?line] indent (JArr required) rest = Inr ls"
    by (simp add: py_get_def py_in_def)
  then obtain ls' where
    rest: "parameters_loop [] indent (JArr required) rest = Inr ls'" and ls: "ls = [?line] @ ls'"
    using extend_InrD [OF _ frame_Nil(3)] by blast
  from Cons.IH [OF rest] ls kvs show ?case
    by (simp add: items_of_def)
qed

text \<open>
  C4. When a tool is rendered whose parameter schema has at least one property and a list
  as its required-name set (an absent key \<^verbatim>\<open>required\<close> is the empty list), the block ends
  with the line \<^verbatim>\<open>**Parameters**:\<close>, one line per property in the order of the schema, and
  a closing line. The line of a property has the suffix \<^verbatim>\<open> *(required)*\<close> after the type
  exactly when the property name is in the required-name set.
\<close>

theorem required_marker_iff_required:
  assumes "generate_tool_documentation md (JObj tool) indent = Inr md'"
    and "map_of tool ''input_schema'' = Some (JObj schema)"
    and "map_of schema ''properties'' = Some (JObj properties)"
    and "properties \<noteq> []"
    and "dict_get schema ''required'' (JArr []) = JArr required"
  shows "\<exists>pre. md' = md @ pre @ [indent @ ''**Parameters**:'']
           @ map (\<lambda>param.
                    indent @ ''- `'' @ fst param @ ''` (''
                    @ py_str (dict_get (items_of (snd param)) ''type'' (JStr ''unknown'')) @ '')''
                    @ (if JStr (fst param) \<in> set required then '' *(required)*'' else '''')
                    @ '': ''
                    @ py_str (dict_get (items_of (snd param)) ''description''
                                (JStr ''No description'')))
                 properties
           @ [indent]"
proof -
  from assms(1) obtain block where
    block: "generate_tool_documentation [] (JObj tool) indent = Inr block" and md': "md' = md @ block"
    using extend_InrD [OF _ frame_Nil(4)] by blast
  from assms(3) have "schema \<noteq> []"
    by auto
  with block assms(2,3,4,5) obtain head params where
    params: "parameters_loop [indent, indent @ ''**Parameters**:''] indent (JArr required) properties
             = Inr params" and
    b: "block = head @ params @ [indent]"
    by (auto simp: generate_tool_documentation_lines ebind_Inr_iff input_schema_part_def
          dict_get_def py_truthy_def is_dict_def py_get_def py_items_def)
  from params obtain ls where
    "parameters_loop [] indent (JArr required) properties = Inr ls" and
    "params = [indent, indent @ ''**Parameters**:''] @ ls"
    using extend_InrD [OF _ frame_Nil(3)] by blast
  with parameters_loop_lines [of indent required properties ls] md' b show ?thesis
    by (intro exI [of _ "head @ [indent]"]) simp
qed


theorem required_marker_iff_required_witness:
  "generate_tool_documentation []
     (JObj [(''name'', JStr ''read_file''),
            (''input_schema'', JObj
               [(''properties'', JObj
                   [(''path'', JObj [(''type'', JStr ''string''), (''description'', JStr ''File path'')]),
                    (''encoding'', JObj [(''type'', JStr ''string'')])]),
                (''required'', JArr [JStr ''path''])])]) ''''
   = Inr [''#### `read_file`'', '''', ''**Description**: No description available'', '''',
          ''**Category**: general'', '''', ''**Parameters**:'',
          ''- `path` (string) *(required)*: File path'',
          ''- `encoding` (string): No description'',
          '''']
   \<and> (\<exists>pre. [''#### `read_file`'', '''', ''**Description**: No description available'', '''',
          ''**Category**: general'', '''', ''**Parameters**:'',
          ''- `path` (string) *(required)*: File path'',
          ''- `encoding` (string): No description'',
          '''']
        = pre @ [''**Parameters**:'',
                 ''- `path` (string) *(required)*: File path'',
                 ''- `encoding` (string): No description'',
                 ''''])"
proof -
  have a: "generate_tool_documentation []
     (JObj [(''name'', JStr ''read_file''),
            (''input_schema'', JObj
               [(''properties'', JObj
                   [(''path'', JObj [(''type'', JStr ''string''), (''description'', JStr ''File path'')]),
                    (''encoding'', JObj [(''type'', JStr ''string'')])]),
                (''required'', JArr [JStr ''path''])])]) ''''
   = Inr [''#### `read_file`'', '''', ''**Description**: No description available'', '''',
          ''**Category**: general'', '''', ''**Parameters**:'',
          ''- `path` (string) *(required)*: File path'',
          ''- `encoding` (string): No description'',
          '''']"
    by (simp add: section_defs python_defs)
  have b: "map_of [(''name'', JStr ''read_file''),
            (''input_schema'', JObj
               [(''properties'', JObj
                   [(''path'', JObj [(''type'', JStr ''string''), (''description'', JStr ''File path'')]),
                    (''encoding'', JObj [(''type'', JStr ''string'')])]),
                (''required'', JArr [JStr ''path''])])] ''input_schema''
     = Some (JObj
               [(''properties'', JObj
                   [(''path'', JObj [(''type'', JStr ''string''), (''description'', JStr ''File path'')]),
                    (''encoding'', JObj [(''type'', JStr ''string'')])]),
                (''required'', JArr [JStr ''path''])])"
    by simp
  have c: "map_of [(''properties'', JObj
                   [(''path'', JObj [(''type'', JStr ''string''), (''description'', JStr ''File path'')]),
                    (''encoding'', JObj [(''type'', JStr ''string'')])]),
                (''required'', JArr [JStr ''path''])] ''properties''
     = Some (JObj
                   [(''path'', JObj [(''type'', JStr ''string''), (''description'', JStr ''File path'')]),
                    (''encoding'', JObj [(''type'', JStr ''string'')])])"
    by simp
  have d: "[(''path'', JObj [(''type'', JStr ''string''), (''description'', JStr ''File path'')]),
            (''encoding'', JObj [(''type'', JStr ''string'')])] \<noteq> []"
    by simp
  have e: "dict_get [(''properties'', JObj
                   [(''path'', JObj [(''type'', JStr ''string''), (''description'', JStr ''File path'')]),
                    (''encoding'', JObj [(''type'', JStr ''string'')])]),
                (''required'', JArr [JStr ''path''])] ''required'' (JArr [])
     = JArr [JStr ''path'']"
    by (simp add: dict_get_def)
  from required_marker_iff_required [OF a b c d e] have
    "\<exists>pre. [''#### `read_file`'', '''', ''**Description**: No description available'', '''',
          ''**Category**: general'', '''', ''**Parameters**:'',
          ''- `path` (string) *(required)*: File path'',
          ''- `encoding` (string): No description'',
          '''']
        = pre @ [''**Parameters**:'',
                 ''- `path` (string) *(required)*: File path'',
                 ''- `encoding` (string): No description'',
                 '''']"
    by (simp add: items_of_def dict_get_def py_str_def)
  with a show ?thesis
    by (intro conjI)
qed

subsection \<open>Rendering a catalog of the specified shape does not raise\<close>

lemma not_isl_ebind:
  assumes "\<not> isl m" and "\<And>x. m = Inr x \<Longrightarrow> \<not> isl (f x)"
  shows "\<not> isl (ebind m f)"
  using assms by (cases m) simp_all

lemma isl_extend [simp]: "isl (extend md r) = isl r"
  by (cases r) simp_all

lemma not_isl_iff: "\<not> isl r \<longleftrightarrow> (\<exists>x. r = Inr x)"
  by (cases r) simp_all

lemma field_ok_dict_get:
  assumes "field_ok kvs k P" and "P d"
  shows "P (dict_get kvs k d)"
  using assms by (simp add: field_ok_def dict_get_def split: option.splits)

lemma join_items_ok: "list_all is_str xs \<Longrightarrow> \<not> isl (join_items i xs)"
proof (induction xs arbitrary: i)
  case Nil
  show ?case by simp
next
  case (Cons x xs)
  then obtain s where x: "x = JStr s"
    by (auto simp: is_str_def split: json.splits)
  from Cons obtain ss where "join_items (Suc i) xs = Inr ss"
    by (auto simp: not_isl_iff)
  with x show ?case by simp
qed

lemma use_cases_part_ok:
  assumes "is_str_list u"
  shows "\<not> isl (use_cases_part md indent u)"
proof -
  from assms obtain xs where "u = JArr xs" "list_all is_str xs"
    by (auto simp: is_str_list_def split: json.splits)
  with join_items_ok [of xs 0] show ?thesis
    by (auto simp: use_cases_part_def py_join_def py_iter_def not_isl_iff)
qed

lemma parameters_loop_ok:
  assumes "list_all (\<lambda>kv. param_conforms (snd kv)) items"
  shows "\<not> isl (parameters_loop md indent (JArr required) items)"
  using assms
  by (induction items arbitrary: md)
     (auto simp: param_conforms_def py_get_def py_in_def split: json.splits)

lemma input_schema_part_ok:
  assumes "v = JNull \<or> schema_conforms v"
  shows "\<not> isl (input_schema_part md indent v)"
  using assms
proof
  assume "v = JNull"
  then show ?thesis
    by (simp add: input_schema_part_def py_truthy_def)
next
  assume "schema_conforms v"
  then obtain kvs where v: "v = JObj kvs" and
    p: "field_ok kvs ''properties'' properties_conform" and
    r: "field_ok kvs ''required'' is_str_list"
    by (auto simp: schema_conforms_def split: json.splits)
  from field_ok_dict_get [OF p, of "JObj []"] obtain ps where
    ps: "dict_get kvs ''properties'' (JObj []) = JObj ps"
        "list_all (\<lambda>kv. param_conforms (snd kv)) ps"
    by (auto simp: properties_conform_def split: json.splits)
  from field_ok_dict_get [OF r, of "JArr []"] obtain rs where
    rs: "dict_get kvs ''required'' (JArr []) = JArr rs"
    by (auto simp: is_str_list_def split: json.splits)
  from parameters_loop_ok [OF ps(2)] show ?thesis
    by (simp add: input_schema_part_def v py_get_def ps rs py_items_def)
qed

lemma generate_tool_documentation_ok:
  assumes "tool_conforms tool"
  shows "\<not> isl (generate_tool_documentation md tool indent)"
proof -
  from assms obtain kvs where tool: "tool = JObj kvs" and
    u: "field_ok kvs ''use_cases'' is_str_list" and
    s: "field_ok kvs ''input_schema'' schema_conforms"
    by (auto simp: tool_conforms_def split: json.splits)
  have u': "is_str_list (dict_get kvs ''use_cases'' (JArr []))"
    by (rule field_ok_dict_get [OF u]) (simp add: is_str_list_def)
  have s': "dict_get kvs ''input_schema'' JNull = JNull
            \<or> schema_conforms (dict_get kvs ''input_schema'' JNull)"
    using s by (simp add: field_ok_def dict_get_def split: option.splits)
  show ?thesis
    by (simp add: generate_tool_documentation_def tool py_get_def)
       (intro not_isl_ebind use_cases_part_ok [OF u'] input_schema_part_ok [OF s'], simp_all)
qed

lemma tools_loop_ok:
  assumes "list_all tool_conforms tools"
  shows "\<not> isl (tools_loop md tools)"
  using assms
proof (induction tools arbitrary: md)
  case Nil
  show ?case by simp
next
  case (Cons tool rest)
  then show ?case
    using generate_tool_documentation_ok [of tool md "''''"]
    by (auto simp: not_isl_iff)
qed

lemma tools_part_ok:
  assumes "field_ok kvs ''tools'' tools_conform"
  shows "\<not> isl (tools_part md (JObj kvs))"
proof -
  from field_ok_dict_get [OF assms, of "JArr []"] obtain ts where
    "dict_get kvs ''tools'' (JArr []) = JArr ts" "list_all tool_conforms ts"
    by (auto simp: tools_conform_def split: json.splits)
  with tools_loop_ok [of ts] show ?thesis
    by (simp add: tools_part_def py_get_def py_len_def py_iter_def)
qed

lemma args_part_ok:
  assumes "is_str_list args"
  shows "\<not> isl (args_part md args)"
  using assms by (auto simp: args_part_def is_str_list_def py_iter_def split: json.splits)

lemma server_configuration_part_ok:
  assumes "field_ok kvs ''args'' is_str_list"
  shows "\<not> isl (server_configuration_part md (JObj kvs))"
proof -
  have "is_str_list (dict_get kvs ''args'' (JArr []))"
    by (rule field_ok_dict_get [OF assms]) (simp add: is_str_list_def)
  then show ?thesis
    by (simp add: server_configuration_part_def py_in_def py_get_def)
       (intro impI not_isl_ebind args_part_ok, simp_all)
qed

lemma endpoint_part_ok: "\<not> isl (endpoint_part md (JObj kvs))"
  by (auto simp: endpoint_part_def py_in_def py_getitem_def key_present_iff)

lemma server_sections_ok:
  assumes "server_conforms info"
  shows "\<not> isl (generate_local_server_section md name info)"
    and "\<not> isl (generate_remote_server_section md name info)"
proof -
  from assms obtain kvs where info: "info = JObj kvs" and
    a: "field_ok kvs ''args'' is_str_list" and t: "field_ok kvs ''tools'' tools_conform"
    by (auto simp: server_conforms_def split: json.splits)
  show "\<not> isl (generate_local_server_section md name info)"
    by (simp add: generate_local_server_section_def info py_get_def)
       (intro not_isl_ebind server_configuration_part_ok [OF a] tools_part_ok [OF t])
  show "\<not> isl (generate_remote_server_section md name info)"
    by (simp add: generate_remote_server_section_def info py_get_def)
       (intro not_isl_ebind endpoint_part_ok tools_part_ok [OF t])
qed

lemma sections_loop_ok:
  assumes "list_all (\<lambda>kv. server_conforms (snd kv)) items"
  shows "\<not> isl (sections_loop generate_local_server_section md items)"
    and "\<not> isl (sections_loop generate_remote_server_section md items)"
  using assms
proof (induction items arbitrary: md)
  case Nil
  {
    case 1 show ?case by simp
  next
    case 2 show ?case by simp
  }
next
  case (Cons item rest)
  {
    case 1
    with Cons.IH(1) server_sections_ok(1) [of "snd item" md "fst item"] show ?case
      by (auto simp: not_isl_iff)
  next
    case 2
    with Cons.IH(2) server_sections_ok(2) [of "snd item" md "fst item"] show ?case
      by (auto simp: not_isl_iff)
  }
qed

lemma markdown_lines_ok:
  assumes "catalog_conforms c"
  shows "\<not> isl (markdown_lines c)"
proof -
  from assms obtain kvs where c: "c = JObj kvs" and
    l: "field_ok kvs ''local'' servers_conform" and
    r: "field_ok kvs ''remote'' servers_conform"
    by (auto simp: catalog_conforms_def split: json.splits)
  have toc: "\<not> isl (toc_part [] (JObj kvs) key)" if "field_ok kvs key servers_conform" for key
    using that
    by (auto simp: toc_part_JObj field_ok_def servers_conform_def py_keys_def
          split: option.splits json.splits)
  have sections:
    "\<not> isl (sections_part generate_local_server_section [] (JObj kvs) key)"
    "\<not> isl (sections_part generate_remote_server_section [] (JObj kvs) key)"
    if "field_ok kvs key servers_conform" for key
    using that sections_loop_ok
    by (auto simp: sections_part_JObj field_ok_def servers_conform_def py_items_def
          split: option.splits json.splits)
  show ?thesis
    unfolding c markdown_lines_eq
    by (intro not_isl_ebind toc sections l r) (simp_all add: py_get_def)
qed

subsection \<open>Fallback texts of a tool\<close>

text \<open>
  C3. In a rendered tool block the category line reads \<^verbatim>\<open>general\<close> when the tool has no
  key \<^verbatim>\<open>category\<close>, and the description line reads \<^verbatim>\<open>No description available\<close> when it
  has no key \<^verbatim>\<open>description\<close>. Rendering a tool does not raise for a missing key: a tool
  of the specified shape, whatever keys it lacks, is rendered, and so is the tool with no
  key at all.
\<close>

theorem missing_tool_fields_fall_back:
  "(\<forall>md'. generate_tool_documentation md (JObj tool) indent = Inr md' \<longrightarrow>
      (map_of tool ''category'' = None \<longrightarrow>
         md' ! (length md + 4) = indent @ ''**Category**: general'')
      \<and> (map_of tool ''description'' = None \<longrightarrow>
         md' ! (length md + 2) = indent @ ''**Description**: No description available''))
   \<and> (tool_conforms (JObj tool) \<longrightarrow>
        (\<exists>md'. generate_tool_documentation md (JObj tool) indent = Inr md'))
   \<and> generate_tool_documentation md (JObj []) indent =
       Inr (md @ [indent @ ''#### `unknown`'',
                  indent,
                  indent @ ''**Description**: No description available'',
                  indent,
                  indent @ ''**Category**: general'',
                  indent])"
proof (intro conjI allI impI)
  fix md'
  assume "generate_tool_documentation md (JObj tool) indent = Inr md'"
  then obtain block where
    "generate_tool_documentation [] (JObj tool) indent = Inr block" and md': "md' = md @ block"
    using extend_InrD [OF _ frame_Nil(4)] by blast
  then obtain rest where
    block: "block = [indent @ ''#### `'' @ py_str (dict_get tool ''name'' (JStr ''unknown'')) @ ''`'',
             indent,
             indent @ ''**Description**: ''
               @ py_str (dict_get tool ''description'' (JStr ''No description available'')),
             indent,
             indent @ ''**Category**: '' @ py_str (dict_get tool ''category'' (JStr ''general''))]
            @ rest"
    by (auto simp: generate_tool_documentation_lines ebind_Inr_iff)
  show "md' ! (length md + 4) = indent @ ''**Category**: general''"
    if "map_of tool ''category'' = None"
    using that by (simp add: md' block nth_append dict_get_def py_str_def)
  show "md' ! (length md + 2) = indent @ ''**Description**: No description available''"
    if "map_of tool ''description'' = None"
    using that by (simp add: md' block nth_append dict_get_def py_str_def)
next
  assume "tool_conforms (JObj tool)"
  from generate_tool_documentation_ok [OF this, of md indent]
  show "\<exists>md'. generate_tool_documentation md (JObj tool) indent = Inr md'"
    by (simp add: not_isl_iff)
next
  show "generate_tool_documentation md (JObj []) indent =
       Inr (md @ [indent @ ''#### `unknown`'',
                  indent,
                  indent @ ''**Description**: No description available'',
                  indent,
                  indent @ ''**Category**: general'',
                  indent])"
    by (simp add: section_defs python_defs)
qed

theorem missing_tool_fields_fall_back_witness:
  "generate_tool_documentation [''''] (JObj [(''name'', JStr ''list_dir'')]) ''  '' =
     Inr ['''', ''  #### `list_dir`'', ''  '', ''  **Description**: No description available'',
          ''  '', ''  **Category**: general'', ''  '']
   \<and> map_of [(''name'', JStr ''list_dir'')] ''category'' = None
   \<and> map_of [(''name'', JStr ''list_dir'')] ''description'' = None
   \<and> tool_conforms (JObj [(''name'', JStr ''list_dir'')])
   \<and> ['''', ''  #### `list_dir`'', ''  '', ''  **Description**: No description available'',
        ''  '', ''  **Category**: general'', ''  ''] ! (length ([''''] :: string list) + 4)
       = ''  '' @ ''**Category**: general''
   \<and> ['''', ''  #### `list_dir`'', ''  '', ''  **Description**: No description available'',
        ''  '', ''  **Category**: general'', ''  ''] ! (length ([''''] :: string list) + 2)
       = ''  '' @ ''**Description**: No description available''"
proof -
  have a: "generate_tool_documentation [''''] (JObj [(''name'', JStr ''list_dir'')]) ''  '' =
     Inr ['''', ''  #### `list_dir`'', ''  '', ''  **Description**: No description available'',
          ''  '', ''  **Category**: general'', ''  '']"
    by (simp add: section_defs python_defs)
  have b: "map_of [(''name'', JStr ''list_dir'')] ''category'' = None"
    and b': "map_of [(''name'', JStr ''list_dir'')] ''description'' = None"
    by simp_all
  have c: "tool_conforms (JObj [(''name'', JStr ''list_dir'')])"
    by (simp add: tool_conforms_def field_ok_def is_str_def)
  note fall_back =
    missing_tool_fields_fall_back
      [of "['''']" "[(''name'', JStr ''list_dir'')]" "''  ''", THEN conjunct1, THEN spec, THEN mp, OF a]
  show ?thesis
    by (intro conjI a b b' c fall_back [THEN conjunct1, THEN mp, OF b]
          fall_back [THEN conjunct2, THEN mp, OF b'])
qed

subsection \<open>The table of contents\<close>

lemma char_lower_title:
  "c \<noteq> CHR 0xDF \<Longrightarrow> map char_lower (char_title c) = [char_lower c]"
  by (simp add: char_lower_def char_title_def upper_letters_def lower_letters_def)

lemma char_lower_lower: "char_lower (char_lower c) = char_lower c"
  by (simp add: char_lower_def upper_letters_def lower_letters_def)

lemma lower_title_from:
  "ascii_only s \<Longrightarrow> map char_lower (title_from b s) = map char_lower s"
proof (induction s arbitrary: b)
  case Nil
  show ?case by simp
next
  case (Cons c cs)
  then have "c \<noteq> CHR 0xDF" and "ascii_only cs"
    by (auto simp: ascii_only_def)
  with Cons.IH show ?case
    by (simp add: char_lower_title char_lower_lower)
qed

lemma str_lower_title_ascii: "ascii_only s \<Longrightarrow> str_lower (str_title s) = str_lower s"
  by (simp add: str_lower_def str_title_def lower_title_from)

lemma toc_part_names:
  assumes "toc_part [] (JObj c) key = Inr ls"
  shows "ls = map toc_entry (server_names c key)"
  using assms
  by (auto simp: toc_part_JObj server_names_def items_of_def py_keys_def ebind_Inr_iff
        split: option.splits json.splits)

text \<open>
  C9, as amended. In a rendered document the seven lines of title, preamble and
  last-updated value are followed by the table of contents: its heading, the entry of
  the local section, one nested entry per local server in the order of the mapping, the
  entry of the remote section, one nested entry per remote server, and the entry of the
  configuration guide. A nested entry shows the title-cased server name and links to the
  lower-cased server name; nothing else is changed in the name. The link is the
  lower-cased display text when the name is ASCII. (The names are text whose title-cased
  form has no code point from U+0100 on.)
\<close>

theorem table_of_contents_entries:
  assumes "markdown_lines (JObj c) = Inr ls"
    and "list_all title_in_range (server_names c ''local'' @ server_names c ''remote'')"
  shows "(\<exists>pre rest. length pre = 7 \<and>
            ls = pre
               @ [''## Table of Contents'', '''', ''- [Local Servers](#local-servers)'']
               @ map (\<lambda>server_name.
                        ''  - ['' @ str_title server_name @ ''](#'' @ str_lower server_name @ '')'')
                     (server_names c ''local'')
               @ [''- [Remote Tools](#remote-tools)'']
               @ map (\<lambda>server_name.
                        ''  - ['' @ str_title server_name @ ''](#'' @ str_lower server_name @ '')'')
                     (server_names c ''remote'')
               @ [''- [Client Configuration Guide](#client-configuration-guide)'', '''']
               @ rest)
         \<and> (\<forall>server_name. ascii_only server_name \<longrightarrow>
                str_lower (str_title server_name) = str_lower server_name)"
proof -
  from assms(1) obtain last_updated toc_local toc_remote local_sections remote_sections where
    l: "toc_part [] (JObj c) ''local'' = Inr toc_local" and
    r: "toc_part [] (JObj c) ''remote'' = Inr toc_remote" and
    ls: "ls = [''# MCP Tool Catalog'',
             '''',
             ''This document provides a comprehensive overview of all available MCP tools,'',
             ''both local and remote, for task-specific configuration generation.'',
             '''',
             ''**Last Updated**: '' @ py_str last_updated,
             '''']
            @ [''## Table of Contents'', '''', ''- [Local Servers](#local-servers)'']
            @ toc_local
            @ [''- [Remote Tools](#remote-tools)'']
            @ toc_remote
            @ [''- [Client Configuration Guide](#client-configuration-guide)'', '''']
            @ ([''## Local Servers'',
               '''',
               ''Local servers run as separate processes and communicate via stdio transport.'',
               ''They require complete command configuration in the client config.'',
               '''']
            @ local_sections
            @ [''## Remote Tools'',
               '''',
               ''Remote tools are accessible through the Toolman proxy server.'',
               ''Only tool names are needed in the client config.'',
               '''']
            @ remote_sections
            @ generate_configuration_guide [])"
    unfolding markdown_lines_eq ebind_Inr_iff by auto
  have entry: "toc_entry = (\<lambda>server_name.
      ''  - ['' @ str_title server_name @ ''](#'' @ str_lower server_name @ '')'')"
    by (rule ext) (simp add: toc_entry_def)
  have "\<exists>pre rest. length pre = 7 \<and>
            ls = pre
               @ [''## Table of Contents'', '''', ''- [Local Servers](#local-servers)'']
               @ map toc_entry (server_names c ''local'')
               @ [''- [Remote Tools](#remote-tools)'']
               @ map toc_entry (server_names c ''remote'')
               @ [''- [Client Configuration Guide](#client-configuration-guide)'', '''']
               @ rest"
    unfolding ls toc_part_names [OF l] toc_part_names [OF r]
    by (intro exI conjI, rule_tac [2] refl) simp
  then show ?thesis
    unfolding entry by (simp add: str_lower_title_ascii)
qed

theorem table_of_contents_entries_witness:
  "list_all title_in_range
     (server_names
        [(''local'', JObj [(''my server'', JObj []), (''stra'' @ [CHR 0xDF] @ ''e'', JObj [])]),
         (''remote'', JObj [(''k8s.API'', JObj [])])] ''local''
      @ server_names
        [(''local'', JObj [(''my server'', JObj []), (''stra'' @ [CHR 0xDF] @ ''e'', JObj [])]),
         (''remote'', JObj [(''k8s.API'', JObj [])])] ''remote'')
   \<and> map_sum id (\<lambda>ls. take 8 (drop 7 ls))
     (markdown_lines (JObj
        [(''local'', JObj [(''my server'', JObj []), (''stra'' @ [CHR 0xDF] @ ''e'', JObj [])]),
         (''remote'', JObj [(''k8s.API'', JObj [])])]))
   = Inr [''## Table of Contents'',
          '''',
          ''- [Local Servers](#local-servers)'',
          ''  - [My Server](#my server)'',
          ''  - [Stra'' @ [CHR 0xDF] @ ''e](#stra'' @ [CHR 0xDF] @ ''e)'',
          ''- [Remote Tools](#remote-tools)'',
          ''  - [K8S.Api](#k8s.api)'',
          ''- [Client Configuration Guide](#client-configuration-guide)'']
   \<and> ascii_only ''k8s.API''
   \<and> str_lower (str_title ''k8s.API'') = str_lower ''k8s.API''"
proof -
  obtain ls where a: "markdown_lines (JObj
        [(''local'', JObj [(''my server'', JObj []), (''stra'' @ [CHR 0xDF] @ ''e'', JObj [])]),
         (''remote'', JObj [(''k8s.API'', JObj [])])]) = Inr ls"
    by (simp add: markdown_lines_eq toc_part_JObj sections_part_JObj python_defs section_defs)
  have b: "list_all title_in_range
     (server_names
        [(''local'', JObj [(''my server'', JObj []), (''stra'' @ [CHR 0xDF] @ ''e'', JObj [])]),
         (''remote'', JObj [(''k8s.API'', JObj [])])] ''local''
      @ server_names
        [(''local'', JObj [(''my server'', JObj []), (''stra'' @ [CHR 0xDF] @ ''e'', JObj [])]),
         (''remote'', JObj [(''k8s.API'', JObj [])])] ''remote'')"
    by (simp add: server_names_def items_of_def title_in_range_def)
  have c: "ascii_only ''k8s.API''"
    by (simp add: ascii_only_def)
  note toc = table_of_contents_entries [OF a b]
  from toc [THEN conjunct1] obtain pre rest where
    "length pre = 7" and
    "ls = pre
        @ [''## Table of Contents'', '''', ''- [Local Servers](#local-servers)'']
        @ [''  - [My Server](#my server)'',
           ''  - [Stra'' @ [CHR 0xDF] @ ''e](#stra'' @ [CHR 0xDF] @ ''e)'']
        @ [''- [Remote Tools](#remote-tools)'']
        @ [''  - [K8S.Api](#k8s.api)'']
        @ [''- [Client Configuration Guide](#client-configuration-guide)'', '''']
        @ rest"
    by (auto simp: server_names_def items_of_def string_defs)
  with a have "map_sum id (\<lambda>ls. take 8 (drop 7 ls))
     (markdown_lines (JObj
        [(''local'', JObj [(''my server'', JObj []), (''stra'' @ [CHR 0xDF] @ ''e'', JObj [])]),
         (''remote'', JObj [(''k8s.API'', JObj [])])]))
   = Inr [''## Table of Contents'',
          '''',
          ''- [Local Servers](#local-servers)'',
          ''  - [My Server](#my server)'',
          ''  - [Stra'' @ [CHR 0xDF] @ ''e](#stra'' @ [CHR 0xDF] @ ''e)'',
          ''- [Remote Tools](#remote-tools)'',
          ''  - [K8S.Api](#k8s.api)'',
          ''- [Client Configuration Guide](#client-configuration-guide)'']"
    by simp
  with b c toc [THEN conjunct2, THEN spec, THEN mp, OF c] show ?thesis
    by (intro conjI)
qed

text \<open>
  C9 as stated fails in its second reading of the link: for the server name that is the
  one letter sharp s the entry shows \<^verbatim>\<open>Ss\<close> and links to the sharp s, while the display
  text lower-cased is \<^verbatim>\<open>ss\<close>.
\<close>

theorem sharp_s_slug_counterexample:
  "markdown_lines (JObj [(''local'', JObj [([CHR 0xDF], JObj [])])])
   = Inr ([''# MCP Tool Catalog'',
           '''',
           ''This document provides a comprehensive overview of all available MCP tools,'',
           ''both local and remote, for task-specific configuration generation.'',
           '''',
           ''**Last Updated**: Unknown'',
           '''',
           ''## Table of Contents'',
           '''',
           ''- [Local Servers](#local-servers)'',
           ''  - [Ss](#'' @ [CHR 0xDF] @ '')'',
           ''- [Remote Tools](#remote-tools)'',
           ''- [Client Configuration Guide](#client-configuration-guide)'',
           '''',
           ''## Local Servers'',
           '''',
           ''Local servers run as separate processes and communicate via stdio transport.'',
           ''They require complete command configuration in the client config.'',
           '''',
           ''### Ss'',
           '''',
           ''**Description**: No description available'',
           '''',
           ''## Remote Tools'',
           '''',
           ''Remote tools are accessible through the Toolman proxy server.'',
           ''Only tool names are needed in the client config.'',
           '''']
          @ generate_configuration_guide [])
   \<and> str_title [CHR 0xDF] = ''Ss''
   \<and> str_lower [CHR 0xDF] = [CHR 0xDF]
   \<and> str_lower (str_title [CHR 0xDF]) = ''ss''
   \<and> str_lower (str_title [CHR 0xDF]) \<noteq> str_lower [CHR 0xDF]"
  by (simp add: markdown_lines_eq toc_part_JObj sections_part_JObj python_defs section_defs
        string_defs)

subsection \<open>Input of the wrong shape\<close>

lemma section_of_non_dict:
  assumes "\<not> is_dict info"
  shows "generate_local_server_section md name info = Inl (no_attribute info ''get'')"
    and "generate_remote_server_section md name info = Inl (no_attribute info ''get'')"
  using assms
  by (cases info;
      simp add: generate_local_server_section_def generate_remote_server_section_def
        py_get_def is_dict_def)+

lemma sections_loop_non_dict:
  assumes "list_all (\<lambda>kv. server_conforms (snd kv)) before" and "\<not> is_dict info"
  shows "sections_loop generate_local_server_section md (before @ (name, info) # rest)
         = Inl (no_attribute info ''get'')"
    and "sections_loop generate_remote_server_section md (before @ (name, info) # rest)
         = Inl (no_attribute info ''get'')"
  using assms(1)
proof (induction before arbitrary: md)
  case Nil
  {
    case 1 show ?case by (simp add: section_of_non_dict [OF assms(2)])
  next
    case 2 show ?case by (simp add: section_of_non_dict [OF assms(2)])
  }
next
  case (Cons item before)
  {
    case 1
    with Cons.IH(1) server_sections_ok(1) [of "snd item" md "fst item"] show ?case
      by (auto simp: not_isl_iff)
  next
    case 2
    with Cons.IH(2) server_sections_ok(2) [of "snd item" md "fst item"] show ?case
      by (auto simp: not_isl_iff)
  }
qed

lemma toc_part_ok:
  assumes "field_ok kvs key is_dict"
  shows "\<not> isl (toc_part [] (JObj kvs) key)"
  using assms
  by (auto simp: toc_part_JObj field_ok_def is_dict_def py_keys_def
        split: option.splits json.splits)

lemma sections_part_ok:
  assumes "field_ok kvs key servers_conform"
  shows "\<not> isl (sections_part generate_local_server_section [] (JObj kvs) key)"
  using assms sections_loop_ok(1)
  by (auto simp: sections_part_JObj field_ok_def servers_conform_def py_items_def
        split: option.splits json.splits)

lemma servers_conform_is_dict: "field_ok kvs key servers_conform \<Longrightarrow> field_ok kvs key is_dict"
  by (auto simp: field_ok_def servers_conform_def is_dict_def split: option.splits json.splits)

text \<open>
  C7, as amended. The renderer validates nothing, and an error of shape names no path
  and no server key.
  \<^item> When the top level is not an object, rendering raises the \<^verbatim>\<open>AttributeError\<close> of the
    failed call of \<^verbatim>\<open>get\<close>, whose text names the type of the top-level value and nothing
    else.
  \<^item> Called on a server entry that is not an object, either section generator raises
    the same error with the type of the entry, whatever the server key.
  \<^item> For a top-level object, that is the error of the whole rendering when the entry is
    the first thing to fail: for a local entry, when the entries before it in \<^verbatim>\<open>local\<close>
    have the specified shape and \<^verbatim>\<open>remote\<close> is absent or an object; for a remote entry,
    when the entries before it in \<^verbatim>\<open>remote\<close> have the specified shape and \<^verbatim>\<open>local\<close> is
    absent or an object of entries of the specified shape.
  \<^item> When rendering raises such an error, the command line prints its text after
    \<^verbatim>\<open>Error: \<close> and exits with status 1.
  \<^item> No missing key makes rendering raise: a catalog of the specified shape, whatever
    keys it lacks, is rendered.
\<close>

theorem wrong_shape_raises_attribute_error:
  "(\<not> is_dict c \<longrightarrow> generate_tool_catalog_markdown c = Inl (no_attribute c ''get''))
   \<and> (\<not> is_dict info \<longrightarrow>
        generate_local_server_section md name info = Inl (no_attribute info ''get'')
        \<and> generate_remote_server_section md name info = Inl (no_attribute info ''get''))
   \<and> (map_of kvs ''local'' = Some (JObj (before @ (name, info) # rest))
        \<and> list_all (\<lambda>kv. server_conforms (snd kv)) before \<and> \<not> is_dict info
        \<and> field_ok kvs ''remote'' is_dict \<longrightarrow>
        generate_tool_catalog_markdown (JObj kvs) = Inl (no_attribute info ''get''))
   \<and> (map_of kvs ''remote'' = Some (JObj (before @ (name, info) # rest))
        \<and> list_all (\<lambda>kv. server_conforms (snd kv)) before \<and> \<not> is_dict info
        \<and> field_ok kvs ''local'' servers_conform \<longrightarrow>
        generate_tool_catalog_markdown (JObj kvs) = Inl (no_attribute info ''get''))
   \<and> (length argv = 2 \<and> load_file (argv ! 1) = Loaded c
        \<and> generate_tool_catalog_markdown c = Inl (no_attribute v ''get'') \<longrightarrow>
        main argv load_file print_raises =
          \<lparr>stdout = [''Error: '' @ [CHR 0x27] @ type_name v @ [CHR 0x27]
                     @ '' object has no attribute '' @ [CHR 0x27] @ ''get'' @ [CHR 0x27]],
           exit_status = 1\<rparr>)
   \<and> (catalog_conforms c \<longrightarrow> (\<exists>document. generate_tool_catalog_markdown c = Inr document))"
proof (intro conjI impI; (elim conjE)?)
  assume "\<not> is_dict c"
  then show "generate_tool_catalog_markdown c = Inl (no_attribute c ''get'')"
    by (cases c) (simp_all add: generate_tool_catalog_markdown_def markdown_lines_eq py_get_def
        is_dict_def)
next
  assume "\<not> is_dict info"
  then show "generate_local_server_section md name info = Inl (no_attribute info ''get'')"
    by (rule section_of_non_dict)
next
  assume "\<not> is_dict info"
  then show "generate_remote_server_section md name info = Inl (no_attribute info ''get'')"
    by (rule section_of_non_dict)
next
  assume l: "map_of kvs ''local'' = Some (JObj (before @ (name, info) # rest))"
    and b: "list_all (\<lambda>kv. server_conforms (snd kv)) before" and i: "\<not> is_dict info"
    and r: "field_ok kvs ''remote'' is_dict"
  from l have "field_ok kvs ''local'' is_dict"
    by (simp add: field_ok_def is_dict_def)
  from toc_part_ok [OF this] toc_part_ok [OF r] obtain toc_local toc_remote where
    "toc_part [] (JObj kvs) ''local'' = Inr toc_local"
    "toc_part [] (JObj kvs) ''remote'' = Inr toc_remote"
    by (auto simp: not_isl_iff)
  moreover have "sections_part generate_local_server_section [] (JObj kvs) ''local''
                 = Inl (no_attribute info ''get'')"
    by (simp add: sections_part_JObj l py_items_def sections_loop_non_dict(1) [OF b i])
  ultimately show "generate_tool_catalog_markdown (JObj kvs) = Inl (no_attribute info ''get'')"
    by (simp add: generate_tool_catalog_markdown_def markdown_lines_eq py_get_def)
next
  assume r: "map_of kvs ''remote'' = Some (JObj (before @ (name, info) # rest))"
    and b: "list_all (\<lambda>kv. server_conforms (snd kv)) before" and i: "\<not> is_dict info"
    and l: "field_ok kvs ''local'' servers_conform"
  from r have "field_ok kvs ''remote'' is_dict"
    by (simp add: field_ok_def is_dict_def)
  from toc_part_ok [OF servers_conform_is_dict [OF l]] toc_part_ok [OF this]
    sections_part_ok [OF l]
  obtain toc_local toc_remote local_sections where
    "toc_part [] (JObj kvs) ''local'' = Inr toc_local"
    "toc_part [] (JObj kvs) ''remote'' = Inr toc_remote"
    "sections_part generate_local_server_section [] (JObj kvs) ''local'' = Inr local_sections"
    by (auto simp: not_isl_iff)
  moreover have "sections_part generate_remote_server_section [] (JObj kvs) ''remote''
                 = Inl (no_attribute info ''get'')"
    by (simp add: sections_part_JObj r py_items_def sections_loop_non_dict(2) [OF b i])
  ultimately show "generate_tool_catalog_markdown (JObj kvs) = Inl (no_attribute info ''get'')"
    by (simp add: generate_tool_catalog_markdown_def markdown_lines_eq py_get_def)
next
  assume "length argv = 2" "load_file (argv ! 1) = Loaded c"
    "generate_tool_catalog_markdown c = Inl (no_attribute v ''get'')"
  then show "main argv load_file print_raises =
          \<lparr>stdout = [''Error: '' @ [CHR 0x27] @ type_name v @ [CHR 0x27]
                     @ '' object has no attribute '' @ [CHR 0x27] @ ''get'' @ [CHR 0x27]],
           exit_status = 1\<rparr>"
    by (simp add: main_def no_attribute_def exception_str_def)
next
  assume "catalog_conforms c"
  from markdown_lines_ok [OF this] obtain ls where "markdown_lines c = Inr ls"
    by (auto simp: not_isl_iff)
  then show "\<exists>document. generate_tool_catalog_markdown c = Inr document"
    by (simp add: generate_tool_catalog_markdown_def)
qed

text \<open>
  C7 as stated fails: for a catalog whose local server \<^verbatim>\<open>filesystem\<close> is the number
  5, the run prints \<^verbatim>\<open>Error: 'int' object has no attribute 'get'\<close>, a line in which the
  server key does not occur.
\<close>

theorem non_object_server_entry_counterexample:
  "main [''generate-tool-catalog-markdown.py'', ''catalog.json'']
     (single_file ''catalog.json'' (JObj [(''local'', JObj [(''filesystem'', JInt 5)])]))
     Map.empty
   = \<lparr>stdout = [''Error: '' @ [CHR 0x27] @ ''int'' @ [CHR 0x27] @ '' object has no attribute ''
                @ [CHR 0x27] @ ''get'' @ [CHR 0x27]],
      exit_status = 1\<rparr>
   \<and> \<not> str_contains ''filesystem''
         (''Error: '' @ [CHR 0x27] @ ''int'' @ [CHR 0x27] @ '' object has no attribute ''
          @ [CHR 0x27] @ ''get'' @ [CHR 0x27])"
  by (simp add: main_def single_file_def generate_tool_catalog_markdown_def markdown_lines_eq
        toc_part_JObj sections_part_JObj python_defs section_defs no_attribute_def
        exception_str_def type_name_def)

theorem wrong_shape_raises_attribute_error_witness:
  "generate_tool_catalog_markdown (JArr []) = Inl (no_attribute (JArr []) ''get'')
   \<and> generate_local_server_section [] ''filesystem'' (JInt 5) = Inl (no_attribute (JInt 5) ''get'')
   \<and> generate_remote_server_section [] ''k8s'' (JInt 5) = Inl (no_attribute (JInt 5) ''get'')
   \<and> generate_tool_catalog_markdown
         (JObj [(''local'', JObj [(''git'', JObj []), (''filesystem'', JInt 5)])])
       = Inl (no_attribute (JInt 5) ''get'')
   \<and> generate_tool_catalog_markdown (JObj [(''remote'', JObj [(''k8s'', JStr ''url'')])])
       = Inl (no_attribute (JStr ''url'') ''get'')
   \<and> main [''generate-tool-catalog-markdown.py'', ''catalog.json'']
         (single_file ''catalog.json'' (JArr [])) Map.empty
       = \<lparr>stdout = [''Error: '' @ [CHR 0x27] @ ''list'' @ [CHR 0x27]
                     @ '' object has no attribute '' @ [CHR 0x27] @ ''get'' @ [CHR 0x27]],
          exit_status = 1\<rparr>
   \<and> catalog_conforms (JObj [(''local'', JObj [(''git'', JObj [])])])
   \<and> (\<exists>document.
         generate_tool_catalog_markdown (JObj [(''local'', JObj [(''git'', JObj [])])])
         = Inr document)"
proof -
  note shape = wrong_shape_raises_attribute_error
    [where argv = "[''generate-tool-catalog-markdown.py'', ''catalog.json'']"
       and print_raises = Map.empty]
  have top: "generate_tool_catalog_markdown (JArr []) = Inl (no_attribute (JArr []) ''get'')"
    using shape [where c = "JArr []", THEN conjunct1] by (simp add: is_dict_def)
  have sec: "generate_local_server_section [] ''filesystem'' (JInt 5)
               = Inl (no_attribute (JInt 5) ''get'')
             \<and> generate_remote_server_section [] ''k8s'' (JInt 5)
               = Inl (no_attribute (JInt 5) ''get'')"
    using shape [where info = "JInt 5" and md = "[]" and name = "''filesystem''",
                 THEN conjunct2, THEN conjunct1]
          shape [where info = "JInt 5" and md = "[]" and name = "''k8s''",
                 THEN conjunct2, THEN conjunct1]
    by (simp add: is_dict_def)
  have loc: "generate_tool_catalog_markdown
         (JObj [(''local'', JObj [(''git'', JObj []), (''filesystem'', JInt 5)])])
       = Inl (no_attribute (JInt 5) ''get'')"
    using shape [where kvs = "[(''local'', JObj [(''git'', JObj []), (''filesystem'', JInt 5)])]"
        and before = "[(''git'', JObj [])]" and name = "''filesystem''" and info = "JInt 5"
        and rest = "[]", THEN conjunct2, THEN conjunct2, THEN conjunct1]
    by (simp add: is_dict_def server_conforms_def field_ok_def)
  have rem: "generate_tool_catalog_markdown (JObj [(''remote'', JObj [(''k8s'', JStr ''url'')])])
       = Inl (no_attribute (JStr ''url'') ''get'')"
    using shape [where kvs = "[(''remote'', JObj [(''k8s'', JStr ''url'')])]"
        and before = "[]" and name = "''k8s''" and info = "JStr ''url''"
        and rest = "[]", THEN conjunct2, THEN conjunct2, THEN conjunct2, THEN conjunct1]
    by (simp add: is_dict_def field_ok_def)
  have run: "main [''generate-tool-catalog-markdown.py'', ''catalog.json'']
         (single_file ''catalog.json'' (JArr [])) Map.empty
       = \<lparr>stdout = [''Error: '' @ [CHR 0x27] @ ''list'' @ [CHR 0x27]
                     @ '' object has no attribute '' @ [CHR 0x27] @ ''get'' @ [CHR 0x27]],
          exit_status = 1\<rparr>"
    using shape [where c = "JArr []" and v = "JArr []"
        and load_file = "single_file ''catalog.json'' (JArr [])",
        THEN conjunct2, THEN conjunct2, THEN conjunct2, THEN conjunct2, THEN conjunct1] top
    by (simp add: single_file_def type_name_def)
  have conf: "catalog_conforms (JObj [(''local'', JObj [(''git'', JObj [])])])"
    by (simp add: catalog_conforms_def servers_conform_def server_conforms_def field_ok_def)
  have ok: "\<exists>document.
         generate_tool_catalog_markdown (JObj [(''local'', JObj [(''git'', JObj [])])])
         = Inr document"
    using shape [where c = "JObj [(''local'', JObj [(''git'', JObj [])])]",
        THEN conjunct2, THEN conjunct2, THEN conjunct2, THEN conjunct2, THEN conjunct2] conf
    by simp
  from top sec loc rem run conf ok show ?thesis
    by (intro conjI) simp_all
qed

end
